theory Spec2Isabelle
  imports Main
begin

section \<open>Python strings\<close>

text \<open>
  A Python \<open>str\<close> is modelled as a \<open>string\<close>; one \<open>char\<close> stands for one code point
  below 256. \<open>isspace\<close> is \<open>str.isspace\<close> on these code points, which is the set of
  characters \<open>str.strip()\<close> removes.
\<close>

definition isspace :: "char \<Rightarrow> bool" where
  "isspace c = (c \<in> set [CHR 0x09, CHR 0x0A, CHR 0x0B, CHR 0x0C, CHR 0x0D,
                          CHR 0x1C, CHR 0x1D, CHR 0x1E, CHR 0x1F, CHR 0x20,
                          CHR 0x85, CHR 0xA0])"

definition str_strip :: "string \<Rightarrow> string" where
  "str_strip s = rev (dropWhile isspace (rev (dropWhile isspace s)))"

definition startswith :: "string \<Rightarrow> string \<Rightarrow> bool" where
  "startswith s p = (take (length p) s = p)"

definition endswith :: "string \<Rightarrow> string \<Rightarrow> bool" where
  "endswith s p = (length p \<le> length s \<and> drop (length s - length p) s = p)"

text \<open>\<open>s.replace(old, new)\<close> for one-character \<open>old\<close> and \<open>new\<close>.\<close>

definition str_replace :: "char \<Rightarrow> char \<Rightarrow> string \<Rightarrow> string" where
  "str_replace old new s = map (\<lambda>c. if c = old then new else c) s"

text \<open>\<open>str(n)\<close> of a non-negative integer and of an integer, as an f-string formats them.\<close>

fun str_nat :: "nat \<Rightarrow> string" where
  "str_nat n = (if n < 10 then [''0123456789'' ! n]
                else str_nat (n div 10) @ [''0123456789'' ! (n mod 10)])"

declare str_nat.simps [simp del]

definition str_int :: "int \<Rightarrow> string" where
  "str_int i = (if i < 0 then ''-'' @ str_nat (nat (- i)) else str_nat (nat i))"

text \<open>The apostrophe, for the quotes inside the messages.\<close>

definition apostrophe :: string where
  "apostrophe = [CHR 0x27]"

text \<open>
  \<open>repr(s)\<close> of a string, which Python puts into the text of an \<open>OSError\<close> for the
  file name. The quote is the apostrophe, unless \<open>s\<close> has an apostrophe and no double
  quote; the quote and the backslash are escaped by a backslash; tab, line feed and
  carriage return are written \<open>\t\<close>, \<open>\n\<close>, \<open>\r\<close>; every other code point that is not
  printable (below 32, from 127 to 160, and 173) is written \<open>\xhh\<close> with two lower-case
  hexadecimal digits.
\<close>

definition hexdigits :: string where
  "hexdigits = ''0123456789abcdef''"

definition repr_char :: "char \<Rightarrow> char \<Rightarrow> string" where
  "repr_char quote c =
     (let n = (of_char c :: nat)
      in if c = quote \<or> c = CHR 0x5C then [CHR 0x5C, c]
         else if c = CHR 0x09 then [CHR 0x5C, CHR ''t'']
         else if c = CHR 0x0A then [CHR 0x5C, CHR ''n'']
         else if c = CHR 0x0D then [CHR 0x5C, CHR ''r'']
         else if n < 32 \<or> (127 \<le> n \<and> n \<le> 160) \<or> n = 173
              then [CHR 0x5C, CHR ''x'', hexdigits ! (n div 16), hexdigits ! (n mod 16)]
         else [c])"

definition py_repr :: "string \<Rightarrow> string" where
  "py_repr s =
     (let quote = (if CHR 0x27 \<in> set s \<and> CHR 0x22 \<notin> set s then CHR 0x22 else CHR 0x27)
      in [quote] @ concat (map (repr_char quote) s) @ [quote])"

section \<open>Files, the csv reader and the event log\<close>

text \<open>
  A file is modelled by what \<open>csv.reader\<close> yields from it: the rows it returns, in
  order, and the text of the exception that reading raises after the last of them, if any
  (an \<open>OSError\<close> of \<open>open\<close> or \<open>read\<close>, a \<open>csv.Error\<close>). How the bytes of a file give
  these rows is the subject of the section on bytes below. A table passed to
  \<open>csv.writer.writerows\<close> and written out in full is read back by \<open>csv.reader\<close> as the
  same rows.

  \<open>write_fault\<close> says how an attempt to rewrite the file fails, if it does:
  \<^item> \<open>OpenFails m\<close>: \<open>open(path, 'w')\<close> raises an \<open>OSError\<close> of text \<open>m\<close>, and the file
    stays as it is;
  \<^item> \<open>WriteFails m left after\<close>: the file is opened, which empties it, and then
    \<open>writerows\<close>, or the flush when the \<open>with\<close> block closes the file, raises an
    exception of text \<open>m\<close>. \<open>left\<close> is what a reader finds in the file afterwards (as
    much of the table as reached the disk, where the last row can be cut short), and
    \<open>after\<close> is how the next attempt to rewrite the file fails, if it does.

  A path that is not in the file system names nothing: \<open>os.path.exists\<close> is false
  for it and \<open>open\<close> raises a \<open>FileNotFoundError\<close>. Every other way in which opening
  or reading a path fails (a directory, a missing permission, a cell beyond the reader's
  limit) is a file with a \<open>read_fault\<close>. Printing to the console is taken to succeed,
  and interrupts from outside (\<open>KeyboardInterrupt\<close>) are not part of the model.
\<close>

type_synonym row = "string list"

datatype write_failure =
    OpenFails string
  | WriteFails string "row list" "write_failure option"

record csv_file =
  rows :: "row list"
  read_fault :: "string option"
  write_fault :: "write_failure option"

type_synonym filesystem = "string \<Rightarrow> csv_file option"

text \<open>What a run does to the outside world, in order.\<close>

datatype event = Print string | OpenRead string | OpenWrite string

text \<open>
  \<open>StopIteration\<close> is kept apart because the source catches it by name; every other
  exception carries its \<open>str(e)\<close>, which \<open>exn_text\<close> returns.
\<close>

datatype exn = StopIteration | Exception string

fun exn_text :: "exn \<Rightarrow> string" where
  "exn_text StopIteration = []"
| "exn_text (Exception m) = m"

type_synonym reader = "row list \<times> string option"

text \<open>
  The text of the exception that \<open>open\<close> raises for a path that names nothing: a
  \<open>ValueError\<close> when the path has a NUL character, and otherwise the
  \<open>FileNotFoundError\<close>, whose text ends with the \<open>repr\<close> of the path.
\<close>

definition missing_path_text :: "string \<Rightarrow> string" where
  "missing_path_text p =
     (if CHR 0x00 \<in> set p then ''embedded null byte''
      else ''[Errno 2] No such file or directory: '' @ py_repr p)"

definition open_read :: "filesystem \<Rightarrow> string \<Rightarrow> exn + reader" where
  "open_read fs p =
     (case fs p of
        None \<Rightarrow> Inl (Exception (missing_path_text p))
      | Some f \<Rightarrow> Inr (rows f, read_fault f))"

fun reader_next :: "reader \<Rightarrow> exn + (row \<times> reader)" where
  "reader_next ([], None) = Inl StopIteration"
| "reader_next ([], Some m) = Inl (Exception m)"
| "reader_next (r # rs, fault) = Inr (r, (rs, fault))"

fun reader_list :: "reader \<Rightarrow> exn + row list" where
  "reader_list (rs, None) = Inr rs"
| "reader_list (rs, Some m) = Inl (Exception m)"

text \<open>
  Lines 87-89 and 135-137: \<open>open(path, 'w')\<close>, \<open>writerows\<close>, and the end of the \<open>with\<close>
  block. The result is the exception raised, if any, and the file system afterwards:
  the file's whole content is replaced when nothing is raised, untouched when \<open>open\<close>
  raises, and cut short when a later step raises.
\<close>

definition write_csv ::
  "filesystem \<Rightarrow> string \<Rightarrow> row list \<Rightarrow> exn option \<times> filesystem" where
  "write_csv fs p table =
     (case fs p of
        None \<Rightarrow> (None, fs(p \<mapsto> \<lparr>rows = table, read_fault = None, write_fault = None\<rparr>))
      | Some f \<Rightarrow>
          (case write_fault f of
             None \<Rightarrow> (None, fs(p \<mapsto> f\<lparr>rows := table, read_fault := None\<rparr>))
           | Some (OpenFails m) \<Rightarrow> (Some (Exception m), fs)
           | Some (WriteFails m left after) \<Rightarrow>
               (Some (Exception m),
                fs(p \<mapsto> \<lparr>rows = left, read_fault = None, write_fault = after\<rparr>))))"

section \<open>Configuration\<close>

definition HEADER_11_COL :: row where
  "HEADER_11_COL =
     [''Repo Name'', ''File Name'', ''File Type'', ''Release Version'', ''TLSH Hash'',
      ''Commit_Distance'', ''Lines Changed'', ''SHA256 Hash'', ''Imphash'',
      ''Date Added'', ''Intel'']"

definition MALWARE_TEST_HASH :: string where
  "MALWARE_TEST_HASH =
     ''T1FE360823FC9710D6C67EE134C6A66732BF71745983317B836EA049666E1AFE46A3D300''"

definition ATTACK_TOOL_TEST_HASH :: string where
  "ATTACK_TOOL_TEST_HASH =
     ''T199A6337BB48D242BFA2A9736946084737E7E16E8D78B301229F5493A437D1B2F03745''"

definition DEFAULT_MAX_DISTANCE :: int where
  "DEFAULT_MAX_DISTANCE = 50"

section \<open>Reading a file into header and data rows\<close>

text \<open>
  Lines 60-64 and 107-111 of the source, the same in both normalizers: open the file,
  take the first row as the header with every cell stripped, and read all other rows.
\<close>

definition read_csv :: "filesystem \<Rightarrow> string \<Rightarrow> exn + (row \<times> row list)" where
  "read_csv fs file_path =
     (case open_read fs file_path of
        Inl e \<Rightarrow> Inl e
      | Inr reader \<Rightarrow>
          (case reader_next reader of
             Inl e \<Rightarrow> Inl e
           | Inr (first, reader') \<Rightarrow>
               (case reader_list reader' of
                  Inl e \<Rightarrow> Inl e
                | Inr data_rows \<Rightarrow> Inr (map str_strip first, data_rows))))"

type_synonym outcome = "bool \<times> string \<times> string"

definition empty_message :: "string \<Rightarrow> string" where
  "empty_message file_path = ''File '' @ apostrophe @ file_path @ apostrophe @ '' is empty.''"

definition error_message :: "string \<Rightarrow> string" where
  "error_message m = ''An unexpected error occurred: '' @ m"

section \<open>normalize_malware_csv\<close>

definition malware_new_row :: "row \<Rightarrow> row" where
  "malware_new_row row =
     [row ! 0, row ! 1, ''N/A'', row ! 2, row ! 3, ''N/A'', ''N/A'',
      row ! 4, row ! 5, row ! 6, row ! 7]"

definition malware_warning :: "nat \<Rightarrow> string" where
  "malware_warning i = ''      [!] Warning: Skipping malformed malware row '' @ str_nat i"

text \<open>
  The loop of lines 77-85: \<open>i\<close> is the counter of \<open>enumerate(data_rows, start=2)\<close>,
  \<open>updated_rows\<close> the list being appended to, \<open>out\<close> what was printed so far.
\<close>

fun malware_loop :: "nat \<Rightarrow> row list \<Rightarrow> row list \<Rightarrow> event list \<Rightarrow> row list \<times> event list" where
  "malware_loop i [] updated_rows out = (updated_rows, out)"
| "malware_loop i (row # rest) updated_rows out =
     (if length row \<noteq> 8
      then malware_loop (i + 1) rest updated_rows (out @ [Print (malware_warning i)])
      else malware_loop (i + 1) rest (updated_rows @ [malware_new_row row]) out)"

definition unrecognized_message :: "nat \<Rightarrow> nat \<Rightarrow> string" where
  "unrecognized_message header_len first_row_len =
     ''File has an unrecognized malware format (Header: '' @ str_nat header_len
       @ '', Row: '' @ str_nat first_row_len @ '').''"

definition normalize_malware_csv ::
  "filesystem \<Rightarrow> string \<Rightarrow> outcome \<times> filesystem \<times> event list" where
  "normalize_malware_csv fs file_path =
     (case read_csv fs file_path of
        Inl StopIteration \<Rightarrow>
          ((False, ''SKIPPED'', empty_message file_path), fs, [OpenRead file_path])
      | Inl (Exception m) \<Rightarrow>
          ((False, ''ERROR'', error_message m), fs, [OpenRead file_path])
      | Inr (header, data_rows) \<Rightarrow>
          (let header_len = length header;
               first_row_len = (case data_rows of [] \<Rightarrow> 0 | r # _ \<Rightarrow> length r)
           in if header_len = 11 \<and> first_row_len = 11 then
                ((False, ''SKIPPED'', ''File is already in the correct format.''),
                 fs, [OpenRead file_path])
              else if header_len = 8 \<or> (header_len = 11 \<and> first_row_len = 8) then
                (let action = (if header_len = 11 then ''Fixed'' else ''Updated'');
                     (updated_rows, out) = malware_loop 2 data_rows [HEADER_11_COL] []
                 in case write_csv fs file_path updated_rows of
                      (Some e, fs') \<Rightarrow>
                        ((False, ''ERROR'', error_message (exn_text e)), fs',
                         OpenRead file_path # out @ [OpenWrite file_path])
                    | (None, fs') \<Rightarrow>
                        ((True, ''SUCCESS'', ''File was successfully '' @ action @ ''.''),
                         fs', OpenRead file_path # out @ [OpenWrite file_path]))
              else
                ((False, ''SKIPPED'', unrecognized_message header_len first_row_len),
                 fs, [OpenRead file_path])))"

section \<open>normalize_attack_tool_csv\<close>

definition attack_new_row :: "row \<Rightarrow> row" where
  "attack_new_row row =
     (let file_type = str_replace (CHR '','') (CHR '';'') (row ! 2)
      in [row ! 0, row ! 1, file_type, row ! 3, row ! 4, row ! 5,
          ''N/A'',
          row ! 6, row ! 7, row ! 8, row ! 9])"

definition attack_warning :: "nat \<Rightarrow> string" where
  "attack_warning i = ''      [!] Warning: Skipping malformed attack tool row '' @ str_nat i"

fun attack_loop :: "nat \<Rightarrow> row list \<Rightarrow> row list \<Rightarrow> event list \<Rightarrow> row list \<times> event list" where
  "attack_loop i [] updated_rows out = (updated_rows, out)"
| "attack_loop i (row # rest) updated_rows out =
     (if length row \<noteq> 10
      then attack_loop (i + 1) rest updated_rows (out @ [Print (attack_warning i)])
      else attack_loop (i + 1) rest (updated_rows @ [attack_new_row row]) out)"

definition normalize_attack_tool_csv ::
  "filesystem \<Rightarrow> string \<Rightarrow> outcome \<times> filesystem \<times> event list" where
  "normalize_attack_tool_csv fs file_path =
     (case read_csv fs file_path of
        Inl StopIteration \<Rightarrow>
          ((False, ''SKIPPED'', empty_message file_path), fs, [OpenRead file_path])
      | Inl (Exception m) \<Rightarrow>
          ((False, ''ERROR'', error_message m), fs, [OpenRead file_path])
      | Inr (header, data_rows) \<Rightarrow>
          (if length header \<noteq> 10 then
             ((False, ''SKIPPED'', ''File is not a 10-column attack tool CSV.''),
              fs, [OpenRead file_path])
           else
             (let (updated_rows, out) = attack_loop 2 data_rows [HEADER_11_COL] []
              in case write_csv fs file_path updated_rows of
                   (Some e, fs') \<Rightarrow>
                     ((False, ''ERROR'', error_message (exn_text e)), fs',
                      OpenRead file_path # out @ [OpenWrite file_path])
                 | (None, fs') \<Rightarrow>
                     ((True, ''SUCCESS'', ''File was successfully fixed.''),
                      fs', OpenRead file_path # out @ [OpenWrite file_path]))))"

section \<open>verify_and_match_hashes\<close>

text \<open>
  The \<open>tlsh\<close> library is not part of the repository: \<open>tlsh.diff\<close> is a parameter of
  the model, a function from the two fingerprints to the distance, or to \<open>None\<close> where
  the library raises \<open>ValueError\<close>.
\<close>

type_synonym distance_oracle = "string \<Rightarrow> string \<Rightarrow> int option"

definition basename :: "string \<Rightarrow> string" where
  "basename p = rev (takeWhile (\<lambda>c. c \<noteq> CHR ''/'') (rev p))"

text \<open>
  The dictionary \<open>csv.DictReader\<close> builds for a row: \<open>dict(zip(fieldnames, row))\<close>,
  then every field name beyond the row's width is set to \<open>restval\<close>, which is Python's
  \<open>None\<close> (here the value \<open>None\<close> under a key that is present). Cells beyond the header's
  width go under the key \<open>None\<close>, which no lookup of the source uses.
\<close>

definition dict_row :: "row \<Rightarrow> row \<Rightarrow> (string \<rightharpoonup> string option)" where
  "dict_row fieldnames row =
     fold (\<lambda>key d. d(key \<mapsto> None)) (drop (length row) fieldnames)
       (fold (\<lambda>(key, v) d. d(key \<mapsto> Some v)) (zip fieldnames row) Map.empty)"

text \<open>\<open>d.get(key, dflt)\<close> on such a dictionary.\<close>

definition dict_get :: "(string \<rightharpoonup> string option) \<Rightarrow> string \<Rightarrow> string \<Rightarrow> string option" where
  "dict_get d key dflt = (case d key of None \<Rightarrow> Some dflt | Some v \<Rightarrow> v)"

text \<open>
  The body of the loop of lines 160-172 on one row: it goes on to the next row without a
  match, it records a match (distance and the text printed for \<open>sha256\<close>), or an
  exception leaves the loop (\<open>None.strip()\<close> is an \<open>AttributeError\<close>, which the
  \<open>except ValueError\<close> of the loop does not cover and which is raised outside of it).
\<close>

datatype row_result = NoMatch | Match int string | Raises string

definition none_has_no_strip :: string where
  "none_has_no_strip =
     apostrophe @ ''NoneType'' @ apostrophe @ '' object has no attribute ''
       @ apostrophe @ ''strip'' @ apostrophe"

definition verify_row :: "distance_oracle \<Rightarrow> string \<Rightarrow> int \<Rightarrow> row \<Rightarrow> row \<Rightarrow> row_result" where
  "verify_row diff reference_tlsh max_distance fieldnames row =
     (let d = dict_row fieldnames row
      in case dict_get d ''TLSH Hash'' [] of
           None \<Rightarrow> Raises none_has_no_strip
         | Some cell \<Rightarrow>
             (let current_tlsh = str_strip cell
              in if \<not> startswith current_tlsh ''T1'' then NoMatch
                 else case diff reference_tlsh current_tlsh of
                        None \<Rightarrow> NoMatch
                      | Some distance \<Rightarrow>
                          if distance < max_distance
                          then Match distance
                                 (case dict_get d ''SHA256 Hash'' ''N/A'' of
                                    None \<Rightarrow> ''None'' | Some sha256 \<Rightarrow> sha256)
                          else NoMatch))"

definition match_message :: "string \<Rightarrow> nat \<Rightarrow> int \<Rightarrow> string \<Rightarrow> string" where
  "match_message file_path i distance sha256 =
     ''       [MATCH FOUND] File: '' @ basename file_path @ '', Row: '' @ str_nat i
       @ '', Distance: '' @ str_int distance @ '', SHA256: '' @ sha256"

text \<open>
  The loop over \<open>enumerate(reader, start=2)\<close>. \<open>DictReader\<close> does not return blank rows
  (rows of no cell), so they are passed over without being counted.
\<close>

fun verify_loop ::
  "distance_oracle \<Rightarrow> string \<Rightarrow> string \<Rightarrow> int \<Rightarrow> row \<Rightarrow> nat \<Rightarrow> row list \<Rightarrow> bool \<Rightarrow> event list
     \<Rightarrow> (exn + bool) \<times> event list" where
  "verify_loop diff file_path reference_tlsh max_distance fieldnames i [] matches_found out =
     (Inr matches_found, out)"
| "verify_loop diff file_path reference_tlsh max_distance fieldnames i (row # rest) matches_found out =
     (if row = [] then
        verify_loop diff file_path reference_tlsh max_distance fieldnames i rest matches_found out
      else case verify_row diff reference_tlsh max_distance fieldnames row of
             NoMatch \<Rightarrow>
               verify_loop diff file_path reference_tlsh max_distance fieldnames (i + 1) rest
                 matches_found out
           | Match distance sha256 \<Rightarrow>
               verify_loop diff file_path reference_tlsh max_distance fieldnames (i + 1) rest
                 True (out @ [Print (match_message file_path i distance sha256)])
           | Raises m \<Rightarrow> (Inl (Exception m), out))"

definition verify_error :: "string \<Rightarrow> string" where
  "verify_error m = ''       [ERROR] Test failed: Could not read or parse file: '' @ m"

definition column_not_found :: string where
  "column_not_found =
     ''       [FAILURE] '' @ apostrophe @ ''TLSH Hash'' @ apostrophe @ '' column not found.''"

definition no_matches_info :: "int \<Rightarrow> string" where
  "no_matches_info max_distance =
     ''       [INFO] No matches found below distance '' @ str_int max_distance @ ''.''"

text \<open>
  \<open>reader.fieldnames\<close> is the first row of the file, and Python's \<open>None\<close> when the file
  has no row at all; \<open>'TLSH Hash' not in None\<close> is a \<open>TypeError\<close>.
\<close>

definition none_not_iterable :: string where
  "none_not_iterable =
     ''argument of type '' @ apostrophe @ ''NoneType'' @ apostrophe @ '' is not iterable''"

definition verify_and_match_hashes ::
  "distance_oracle \<Rightarrow> filesystem \<Rightarrow> string \<Rightarrow> string \<Rightarrow> int \<Rightarrow> (bool \<times> bool) \<times> event list" where
  "verify_and_match_hashes diff fs file_path reference_tlsh max_distance =
     (let out0 = [Print (''    -> Deep Test: '' @ apostrophe @ basename file_path @ apostrophe),
                  OpenRead file_path]
      in case open_read fs file_path of
           Inl e \<Rightarrow> ((False, False), out0 @ [Print (verify_error (exn_text e))])
         | Inr reader \<Rightarrow>
             (case reader_next reader of
                Inl StopIteration \<Rightarrow>
                  ((False, False), out0 @ [Print (verify_error none_not_iterable)])
              | Inl (Exception m) \<Rightarrow> ((False, False), out0 @ [Print (verify_error m)])
              | Inr (fieldnames, (data, fault)) \<Rightarrow>
                  (if ''TLSH Hash'' \<notin> set fieldnames then
                     ((False, False), out0 @ [Print column_not_found])
                   else
                     (case verify_loop diff file_path reference_tlsh max_distance fieldnames
                             2 data False [] of
                        (Inl e, out) \<Rightarrow>
                          ((False, False), out0 @ out @ [Print (verify_error (exn_text e))])
                      | (Inr matches_found, out) \<Rightarrow>
                          (case fault of
                             Some m \<Rightarrow> ((False, False), out0 @ out @ [Print (verify_error m)])
                           | None \<Rightarrow>
                               ((True, matches_found),
                                out0 @ out @ (if \<not> matches_found
                                              then [Print (no_matches_info max_distance)]
                                              else [])))))))"

section \<open>find_csv_files\<close>

text \<open>
  \<open>str.lower()\<close> on the code points below 256: the letters A-Z and the capital letters
  of Latin-1 (0xC0-0xDE without the multiplication sign 0xD7) move up by 32.
\<close>

definition upper_chars :: "char list" where
  "upper_chars =
     [CHR 0x41, CHR 0x42, CHR 0x43, CHR 0x44, CHR 0x45, CHR 0x46, CHR 0x47, CHR 0x48,
      CHR 0x49, CHR 0x4A, CHR 0x4B, CHR 0x4C, CHR 0x4D, CHR 0x4E, CHR 0x4F, CHR 0x50,
      CHR 0x51, CHR 0x52, CHR 0x53, CHR 0x54, CHR 0x55, CHR 0x56, CHR 0x57, CHR 0x58,
      CHR 0x59, CHR 0x5A, CHR 0xC0, CHR 0xC1, CHR 0xC2, CHR 0xC3, CHR 0xC4, CHR 0xC5,
      CHR 0xC6, CHR 0xC7, CHR 0xC8, CHR 0xC9, CHR 0xCA, CHR 0xCB, CHR 0xCC, CHR 0xCD,
      CHR 0xCE, CHR 0xCF, CHR 0xD0, CHR 0xD1, CHR 0xD2, CHR 0xD3, CHR 0xD4, CHR 0xD5,
      CHR 0xD6, CHR 0xD8, CHR 0xD9, CHR 0xDA, CHR 0xDB, CHR 0xDC, CHR 0xDD, CHR 0xDE]"

definition lower_chars :: "char list" where
  "lower_chars =
     [CHR 0x61, CHR 0x62, CHR 0x63, CHR 0x64, CHR 0x65, CHR 0x66, CHR 0x67, CHR 0x68,
      CHR 0x69, CHR 0x6A, CHR 0x6B, CHR 0x6C, CHR 0x6D, CHR 0x6E, CHR 0x6F, CHR 0x70,
      CHR 0x71, CHR 0x72, CHR 0x73, CHR 0x74, CHR 0x75, CHR 0x76, CHR 0x77, CHR 0x78,
      CHR 0x79, CHR 0x7A, CHR 0xE0, CHR 0xE1, CHR 0xE2, CHR 0xE3, CHR 0xE4, CHR 0xE5,
      CHR 0xE6, CHR 0xE7, CHR 0xE8, CHR 0xE9, CHR 0xEA, CHR 0xEB, CHR 0xEC, CHR 0xED,
      CHR 0xEE, CHR 0xEF, CHR 0xF0, CHR 0xF1, CHR 0xF2, CHR 0xF3, CHR 0xF4, CHR 0xF5,
      CHR 0xF6, CHR 0xF8, CHR 0xF9, CHR 0xFA, CHR 0xFB, CHR 0xFC, CHR 0xFD, CHR 0xFE]"

definition lower_char :: "char \<Rightarrow> char" where
  "lower_char c = (case map_of (zip upper_chars lower_chars) c of None \<Rightarrow> c | Some l \<Rightarrow> l)"

definition str_lower :: "string \<Rightarrow> string" where
  "str_lower s = map lower_char s"

text \<open>\<open>os.path.join(root, file)\<close> of \<open>posixpath\<close>.\<close>

definition path_join :: "string \<Rightarrow> string \<Rightarrow> string" where
  "path_join a b =
     (if startswith b ''/'' then b
      else if a = [] \<or> endswith a ''/'' then a @ b
      else a @ ''/'' @ b)"

text \<open>
  The directory tree is outside of the file model: \<open>os.walk(root_dir)\<close> is a parameter,
  the list of the directories it visits, each with the names of the files in it.
\<close>

definition find_csv_files ::
  "(string \<Rightarrow> (string \<times> string list) list) \<Rightarrow> string \<Rightarrow> string list \<times> event list" where
  "find_csv_files walk root_dir =
     (concat (map (\<lambda>(root, files).
                      map (path_join root)
                        (filter (\<lambda>file. endswith (str_lower file) ''.csv'') files))
                  (walk root_dir)),
      [Print (''Searching for CSV files in '' @ apostrophe @ root_dir @ apostrophe @ ''...'')])"

section \<open>main\<close>

text \<open>
  The parsed command line (\<open>argparse\<close> is outside of the model), and what the run finds
  around it: whether \<open>import tlsh\<close> succeeded, the library's \<open>diff\<close>, and \<open>os.walk\<close>.
\<close>

record args =
  args_normalize_attack_tools :: bool
  args_file :: "string option"
  args_directory :: string
  args_test :: bool
  args_max_distance :: int

record environment =
  TLSH_AVAILABLE :: bool
  tlsh_diff :: distance_oracle
  os_walk :: "string \<Rightarrow> (string \<times> string list) list"

record tally =
  changed_count :: nat
  skipped_count :: nat
  tests_passed :: nat
  tests_failed :: nat
  files_with_matches :: "string list"

definition newline :: string where
  "newline = [CHR 0x0A]"

text \<open>The loop of lines 249-268 over \<open>files_to_process\<close>.\<close>

fun main_loop ::
  "(filesystem \<Rightarrow> string \<Rightarrow> outcome \<times> filesystem \<times> event list) \<Rightarrow> bool \<Rightarrow> distance_oracle
     \<Rightarrow> string \<Rightarrow> int \<Rightarrow> string list \<Rightarrow> filesystem \<Rightarrow> tally \<Rightarrow> event list
     \<Rightarrow> filesystem \<times> tally \<times> event list" where
  "main_loop normalize_func test diff reference_tlsh max_distance [] fs t out = (fs, t, out)"
| "main_loop normalize_func test diff reference_tlsh max_distance (file_path # rest) fs t out =
     (case normalize_func fs file_path of
        ((was_changed, status, message), fs1, ev1) \<Rightarrow>
          (let out1 = out @ [Print (''  -> Processing: '' @ file_path)] @ ev1
                        @ [Print (''     ['' @ status @ ''] '' @ message)];
               t1 = (if was_changed then t\<lparr>changed_count := changed_count t + 1\<rparr>
                     else if status = ''SKIPPED'' then t\<lparr>skipped_count := skipped_count t + 1\<rparr>
                     else t)
           in if test then
                (case verify_and_match_hashes diff fs1 file_path reference_tlsh max_distance of
                   ((is_readable, found_match), ev2) \<Rightarrow>
                     (let t2 = (if is_readable then t1\<lparr>tests_passed := tests_passed t1 + 1\<rparr>
                                else t1\<lparr>tests_failed := tests_failed t1 + 1\<rparr>);
                          t3 = (if found_match
                                then t2\<lparr>files_with_matches := files_with_matches t2 @ [file_path]\<rparr>
                                else t2)
                      in main_loop normalize_func test diff reference_tlsh max_distance rest
                           fs1 t3 (out1 @ ev2)))
              else main_loop normalize_func test diff reference_tlsh max_distance rest
                     fs1 t1 out1))"

definition summary_report :: "args \<Rightarrow> nat \<Rightarrow> tally \<Rightarrow> event list" where
  "summary_report a n_files t =
     [Print (newline @ replicate 60 (CHR ''='')),
      Print (replicate 22 (CHR '' '') @ ''Process Summary''),
      Print (replicate 60 (CHR ''='')),
      Print (''Total CSV Files Scanned: '' @ str_nat n_files),
      Print (''Files Fixed or Updated: '' @ str_nat (changed_count t)),
      Print (''Files Skipped: '' @ str_nat (skipped_count t))]
     @ (if args_test a then
          [Print (replicate 60 (CHR ''-'')),
           Print (replicate 18 (CHR '' '') @ ''Verification Test Summary''),
           Print (replicate 60 (CHR ''-'')),
           Print (''Total Tests Run: '' @ str_nat n_files),
           Print (''Tests Passed (Readable): '' @ str_nat (tests_passed t)),
           Print (''Tests Failed (Unreadable): '' @ str_nat (tests_failed t))]
          @ (if files_with_matches t \<noteq> [] then
               [Print (replicate 60 (CHR ''-'')),
                Print (''--- Files with TLSH Matches (Distance < ''
                         @ str_int (args_max_distance a) @ '') ---'')]
               @ map (\<lambda>file_path. Print (''  - '' @ file_path)) (files_with_matches t)
             else
               [Print (newline @ ''No files contained TLSH matches below the threshold.'')])
        else [])
     @ [Print (replicate 60 (CHR ''='')) ]"

definition tlsh_missing_report :: "event list" where
  "tlsh_missing_report =
     [Print (newline @ ''[ERROR] The '' @ apostrophe @ ''--test'' @ apostrophe
               @ '' feature requires the '' @ apostrophe @ ''tlsh'' @ apostrophe @ '' library.''),
      Print ''Please install it by running: pip install tlsh'']"

definition main :: "environment \<Rightarrow> args \<Rightarrow> filesystem \<Rightarrow> filesystem \<times> event list" where
  "main env a fs =
     (if args_test a \<and> \<not> TLSH_AVAILABLE env then (fs, tlsh_missing_report)
      else
        (let (normalize_func, reference_tlsh, out1) =
               (if args_normalize_attack_tools a
                then (normalize_attack_tool_csv, ATTACK_TOOL_TEST_HASH,
                      [Print (newline @ ''--- Running in Attack Tool Normalization Mode ---'')])
                else (normalize_malware_csv, MALWARE_TEST_HASH,
                      [Print (newline
                               @ ''--- Running in Malware Normalization Mode (Default) ---'')]));
             (files_to_process, out2) =
               (case args_file a of
                  None \<Rightarrow> find_csv_files (os_walk env) (args_directory a)
                | Some f \<Rightarrow>
                    if f \<noteq> [] then (if fs f \<noteq> None then [f] else [], [])
                    else find_csv_files (os_walk env) (args_directory a))
         in if files_to_process = [] then
              (fs, out1 @ out2 @ [Print ''No CSV files found to process.''])
            else
              (case main_loop normalize_func (args_test a) (tlsh_diff env) reference_tlsh
                      (args_max_distance a) files_to_process fs
                      \<lparr>changed_count = 0, skipped_count = 0, tests_passed = 0,
                       tests_failed = 0, files_with_matches = []\<rparr> [] of
                 (fs', t, out3) \<Rightarrow>
                   (fs',
                    out1 @ out2
                    @ [Print (newline @ ''Found '' @ str_nat (length files_to_process)
                               @ '' CSV files. Starting process...'' @ newline)]
                    @ out3 @ summary_report a (length files_to_process) t))))"

text \<open>
  Lines 294-295: the script calls \<open>main()\<close> and ends. \<open>main\<close> leaves by \<open>return\<close> on
  every path and the source has no \<open>sys.exit\<close>, so the exit status of the process is 0.
\<close>

definition script :: "environment \<Rightarrow> args \<Rightarrow> filesystem \<Rightarrow> filesystem \<times> event list \<times> int" where
  "script env a fs = (case main env a fs of (fs', out) \<Rightarrow> (fs', out, 0))"

section \<open>From the bytes of a file to its rows\<close>

text \<open>
  Both normalizers open the file with \<open>encoding='utf-8', errors='ignore'\<close>: a byte
  sequence that is not UTF-8 raises nothing and is left out of the text. A byte is a
  \<open>char\<close> here. \<open>decode_utf8_ignore\<close> follows the decoder byte by byte:
  \<^item> a byte below 0x80 is the character of that code;
  \<^item> a continuation byte (0x80-0xBF) where a character should start, and a byte that
    starts no character (0xC0, 0xC1, 0xF5-0xFF), are invalid start bytes: one byte is
    left out;
  \<^item> 0xC2 or 0xC3 with a continuation byte is the character of a code point from 0x80
    to 0xFF; followed by another byte, or by the end of the data, the lead byte alone is
    left out;
  \<^item> any other lead byte (0xC4-0xF4) belongs to a code point beyond 255, for which the
    strings of this model have no character: the result is \<open>None\<close>.
\<close>

definition is_ascii :: "char \<Rightarrow> bool" where
  "is_ascii b = ((of_char b :: nat) < 128)"

definition is_continuation :: "char \<Rightarrow> bool" where
  "is_continuation b = (128 \<le> (of_char b :: nat) \<and> (of_char b :: nat) < 192)"

definition never_starts :: "char \<Rightarrow> bool" where
  "never_starts b =
     ((of_char b :: nat) = 192 \<or> (of_char b :: nat) = 193 \<or> 245 \<le> (of_char b :: nat))"

text \<open>
  The code point of a two-byte sequence is the low five bits of the lead byte followed
  by the low six bits of the continuation byte: after 0xC2 the continuation byte itself,
  after 0xC3 the continuation byte with bit 6 set.
\<close>

definition latin1_char :: "char \<Rightarrow> char \<Rightarrow> char" where
  "latin1_char lead c =
     (if lead = CHR 0xC2 then c
      else Char (digit0 c) (digit1 c) (digit2 c) (digit3 c) (digit4 c) (digit5 c) True True)"

fun decode_utf8_ignore :: "char list \<Rightarrow> string option" where
  "decode_utf8_ignore [] = Some []"
| "decode_utf8_ignore (b # bs) =
     (if is_ascii b then map_option ((#) b) (decode_utf8_ignore bs)
      else if is_continuation b \<or> never_starts b then decode_utf8_ignore bs
      else if b = CHR 0xC2 \<or> b = CHR 0xC3 then
        (case bs of
           [] \<Rightarrow> Some []
         | c # cs \<Rightarrow>
             if is_continuation c
             then map_option ((#) (latin1_char b c)) (decode_utf8_ignore cs)
             else decode_utf8_ignore bs)
      else None)"

text \<open>
  The file is opened without a \<open>newline\<close> argument, so the text layer turns \<open>\r\n\<close> and
  a lone \<open>\r\<close> into \<open>\n\<close> before the reader sees them.
\<close>

fun universal_newlines :: "string \<Rightarrow> string" where
  "universal_newlines [] = []"
| "universal_newlines [c] = (if c = CHR 0x0D then [CHR 0x0A] else [c])"
| "universal_newlines (c # d # cs) =
     (if c = CHR 0x0D \<and> d = CHR 0x0A then CHR 0x0A # universal_newlines cs
      else if c = CHR 0x0D then CHR 0x0A # universal_newlines (d # cs)
      else c # universal_newlines (d # cs))"

text \<open>\<open>s.split(sep)\<close> for a separator of one character.\<close>

fun split_on :: "char \<Rightarrow> string \<Rightarrow> string list" where
  "split_on sep [] = [[]]"
| "split_on sep (c # cs) =
     (if c = sep then [] # split_on sep cs
      else (case split_on sep cs of [] \<Rightarrow> [[c]] | x # xs \<Rightarrow> (c # x) # xs))"

text \<open>
  The lines the text layer hands to the reader, without their \<open>\n\<close>: a text that ends
  with \<open>\n\<close>, and the empty text, have no further line after it.
\<close>

definition text_lines :: "string \<Rightarrow> string list" where
  "text_lines text =
     (let pieces = split_on (CHR 0x0A) text
      in if last pieces = [] then butlast pieces else pieces)"

text \<open>
  \<open>csv.reader\<close> with the default dialect on lines without a quote character: a blank
  line gives the row of no cell, any other line is split at the commas. A cell of more
  than 131072 characters raises a \<open>csv.Error\<close>, after the rows before it.
\<close>

definition field_limit_text :: string where
  "field_limit_text = ''field larger than field limit (131072)''"

fun plain_rows :: "string list \<Rightarrow> row list \<times> string option" where
  "plain_rows [] = ([], None)"
| "plain_rows (l # ls) =
     (let r = (if l = [] then [] else split_on (CHR '','') l)
      in if \<exists>cell \<in> set r. 131072 < length cell then ([], Some field_limit_text)
         else (case plain_rows ls of (rs, fault) \<Rightarrow> (r # rs, fault)))"

text \<open>
  Texts with a double quote (quoted cells, which can span lines), with a NUL character
  (which the reader treats differently from one version to the next) or with a carriage
  return (the text layer leaves none) are outside of this section: the result is
  \<open>None\<close>.
\<close>

definition csv_reader_plain :: "string \<Rightarrow> (row list \<times> string option) option" where
  "csv_reader_plain text =
     (if CHR 0x22 \<in> set text \<or> CHR 0x00 \<in> set text \<or> CHR 0x0D \<in> set text then None
      else Some (plain_rows (text_lines text)))"

definition read_bytes :: "char list \<Rightarrow> (row list \<times> string option) option" where
  "read_bytes bs =
     (case decode_utf8_ignore bs of
        None \<Rightarrow> None
      | Some text \<Rightarrow> csv_reader_plain (universal_newlines text))"

text \<open>A file of these bytes on disk is the file \<open>f\<close> of the model.\<close>

definition holds_bytes :: "csv_file \<Rightarrow> char list \<Rightarrow> bool" where
  "holds_bytes f bs = (read_bytes bs = Some (rows f, read_fault f))"

text \<open>
  The legacy example file as bytes, with the byte 0xFF, which no UTF-8 text contains,
  inside a cell.
\<close>

definition legacy8_bytes :: "char list" where
  "legacy8_bytes =
     ''Repo Name,File Name,Release Version,TLSH Hash,SHA256 Hash,Imphash,Date Added,Intel''
     @ [CHR 0x0D, CHR 0x0A]
     @ ''repoA,fi'' @ [CHR 0xFF] @ ''leB,v1.0,T1HASH,sha256x,imphashY,2024-01-01,yes''
     @ [CHR 0x0D, CHR 0x0A]"

section \<open>Example files\<close>

text \<open>A file system of one readable and writable file.\<close>

definition one_file :: "string \<Rightarrow> row list \<Rightarrow> filesystem" where
  "one_file p table = Map.empty(p \<mapsto> \<lparr>rows = table, read_fault = None, write_fault = None\<rparr>)"

definition legacy8_header :: row where
  "legacy8_header =
     [''Repo Name'', ''File Name'', ''Release Version'', ''TLSH Hash'', ''SHA256 Hash'',
      ''Imphash'', ''Date Added'', ''Intel'']"

definition legacy8_row :: row where
  "legacy8_row =
     [''repoA'', ''fileB'', ''v1.0'', ''T1HASH'', ''sha256x'', ''imphashY'', ''2024-01-01'', ''yes'']"

definition attack10_header :: row where
  "attack10_header =
     [''Repo Name'', ''File Name'', ''File Type'', ''Release Version'', ''TLSH Hash'',
      ''Commit_Distance'', ''SHA256 Hash'', ''Imphash'', ''Date Added'', ''Intel'']"

definition attack10_row :: row where
  "attack10_row =
     [''repoA'', ''toolB'', ''exe,dll'', ''v1.0'', ''T1HASH'', ''3'', ''sha256x'', ''imphashY'',
      ''2024-01-01'', ''yes'']"

definition width7_table :: "row list" where
  "width7_table =
     [[''c1'', ''c2'', ''c3'', ''c4'', ''c5'', ''c6'', ''c7''],
      [''v1'', ''v2'', ''v3'', ''v4'', ''v5'', ''v6'', ''v7'']]"

text \<open>A canonical row, and one whose fingerprint is the reference of the malware mode.\<close>

definition canonical_row :: row where
  "canonical_row =
     [''repoA'', ''fileB'', ''N/A'', ''v1.0'', ''T1HASH'', ''N/A'', ''N/A'', ''sha256x'',
      ''imphashY'', ''2024-01-01'', ''yes'']"

definition matching_row :: row where
  "matching_row =
     [''repoA'', ''fileB'', ''N/A'', ''v1.0'', MALWARE_TEST_HASH, ''N/A'', ''N/A'', ''sha256x'',
      ''imphashY'', ''2024-01-01'', ''yes'']"

text \<open>
  A file system of one file that raises when it is read (\<open>rfault\<close>) or when it is opened
  for writing (\<open>wfault\<close>).
\<close>

definition one_file_faulty ::
  "string \<Rightarrow> row list \<Rightarrow> string option \<Rightarrow> write_failure option \<Rightarrow> filesystem" where
  "one_file_faulty p table rfault wfault =
     Map.empty(p \<mapsto> \<lparr>rows = table, read_fault = rfault, write_fault = wfault\<rparr>)"

text \<open>
  A file that cannot be opened for writing; a disk that takes the header and the first
  eight cells of the first row and then is full, once; and the table that is left then.
\<close>

definition permission_denied :: write_failure where
  "permission_denied =
     OpenFails (''[Errno 13] Permission denied: '' @ apostrophe @ ''ro.csv'' @ apostrophe)"

definition cut_table :: "row list" where
  "cut_table =
     [HEADER_11_COL,
      [''repoA'', ''fileB'', ''N/A'', ''v1.0'', ''T1HASH'', ''N/A'', ''N/A'', ''sha'']]"

definition disk_full_once :: write_failure where
  "disk_full_once = WriteFails ''[Errno 28] No space left on device'' cut_table None"

text \<open>
  Surroundings of a run: no directory to walk, a distance function that always raises,
  and one that knows the distance 0 of a fingerprint to itself and raises otherwise.
\<close>

definition no_walk :: "string \<Rightarrow> (string \<times> string list) list" where
  "no_walk root_dir = []"

definition no_distance :: distance_oracle where
  "no_distance a b = None"

definition identical_distance :: distance_oracle where
  "identical_distance a b = (if a = b then Some 0 else None)"

definition env_without_tlsh :: environment where
  "env_without_tlsh = \<lparr>TLSH_AVAILABLE = False, tlsh_diff = no_distance, os_walk = no_walk\<rparr>"

definition env_with_tlsh :: environment where
  "env_with_tlsh = \<lparr>TLSH_AVAILABLE = True, tlsh_diff = no_distance, os_walk = no_walk\<rparr>"

definition args_with_test :: "string \<Rightarrow> args" where
  "args_with_test p =
     \<lparr>args_normalize_attack_tools = False, args_file = Some p, args_directory = ''.'',
      args_test = True, args_max_distance = 50\<rparr>"

section \<open>Properties the claims speak of\<close>

text \<open>
  A result is one of the three outcomes, \<open>changed\<close> goes with \<open>SUCCESS\<close> only, and
  with \<open>SKIPPED\<close> the file system is the one the call started with. (With \<open>ERROR\<close> it
  need not be: a write that fails half-way leaves the file cut short.)
\<close>

definition well_formed_result :: "filesystem \<Rightarrow> outcome \<times> filesystem \<times> event list \<Rightarrow> bool" where
  "well_formed_result fs r =
     (case r of ((changed, status, message), fs', out) \<Rightarrow>
        ((changed \<and> status = ''SUCCESS'')
          \<or> (\<not> changed \<and> status = ''SKIPPED'' \<and> fs' = fs)
          \<or> (\<not> changed \<and> status = ''ERROR'')))"

text \<open>
  A row is a match in the words of the specification: its fingerprint cell, trimmed,
  starts with \<open>T1\<close>, the distance function returns a distance for it, and the distance
  is strictly below the threshold.
\<close>

definition row_is_match :: "distance_oracle \<Rightarrow> string \<Rightarrow> int \<Rightarrow> row \<Rightarrow> row \<Rightarrow> bool" where
  "row_is_match diff reference_tlsh max_distance fieldnames row =
     (case dict_row fieldnames row ''TLSH Hash'' of
        Some (Some cell) \<Rightarrow>
          startswith (str_strip cell) ''T1''
          \<and> (case diff reference_tlsh (str_strip cell) of
                None \<Rightarrow> False
              | Some distance \<Rightarrow> distance < max_distance)
      | _ \<Rightarrow> False)"

text \<open>
  A row that is not blank and is too short to reach a column named \<open>TLSH Hash\<close>:
  \<open>DictReader\<close> fills the missing cell with \<open>None\<close>.
\<close>

definition row_lacks_cell :: "row \<Rightarrow> row \<Rightarrow> bool" where
  "row_lacks_cell fieldnames row =
     (row \<noteq> [] \<and> ''TLSH Hash'' \<in> set (drop (length row) fieldnames))"

section \<open>The loops as maps and filters\<close>

lemma enumerate_Cons:
  "zip [i..<i + length (r # rs)] (r # rs) = (i, r) # zip [Suc i..<Suc i + length rs] rs"
proof -
  have "[i..<i + length (r # rs)] = i # [Suc i..<Suc i + length rs]"
    by (subst upt_rec) simp
  then show ?thesis by simp
qed

text \<open>
  \<open>zip [i..<i + length data] data\<close> is \<open>enumerate(data, start=i)\<close>: the loop keeps the
  rows of the accepted width, remapped, in their order, and prints one warning for each
  other row, with its number.
\<close>

lemma malware_loop_eq:
  "malware_loop i data updated_rows out =
     (updated_rows @ map malware_new_row (filter (\<lambda>r. length r = 8) data),
      out @ map (\<lambda>(i, r). Print (malware_warning i))
              (filter (\<lambda>(i, r). length r \<noteq> 8) (zip [i..<i + length data] data)))"
proof (induction data arbitrary: i updated_rows out)
  case Nil
  show ?case by simp
next
  case (Cons r rs)
  show ?case
    by (simp only: malware_loop.simps Cons.IH enumerate_Cons Suc_eq_plus1 [symmetric]) simp
qed

lemma attack_loop_eq:
  "attack_loop i data updated_rows out =
     (updated_rows @ map attack_new_row (filter (\<lambda>r. length r = 10) data),
      out @ map (\<lambda>(i, r). Print (attack_warning i))
              (filter (\<lambda>(i, r). length r \<noteq> 10) (zip [i..<i + length data] data)))"
proof (induction data arbitrary: i updated_rows out)
  case Nil
  show ?case by simp
next
  case (Cons r rs)
  show ?case
    by (simp only: attack_loop.simps Cons.IH enumerate_Cons Suc_eq_plus1 [symmetric]) simp
qed

lemma malware_new_row_8:
  "malware_new_row [a, b, c, d, e, f, g, h] =
     [a, b, ''N/A'', c, d, ''N/A'', ''N/A'', e, f, g, h]"
  by (simp add: malware_new_row_def)

lemma attack_new_row_10:
  "attack_new_row [r0, r1, r2, r3, r4, r5, r6, r7, r8, r9] =
     [r0, r1, map (\<lambda>c. if c = CHR '','' then CHR '';'' else c) r2, r3, r4, r5, ''N/A'',
      r6, r7, r8, r9]"
  by (simp add: attack_new_row_def str_replace_def)

lemma length_malware_new_row: "length (malware_new_row r) = 11"
  by (simp add: malware_new_row_def)

lemma length_HEADER_11_COL: "length HEADER_11_COL = 11"
  by (simp add: HEADER_11_COL_def)

section \<open>Reading and writing\<close>

lemma read_csv_ok:
  "fs p = Some f \<Longrightarrow> read_fault f = None \<Longrightarrow> rows f = header # data_rows
     \<Longrightarrow> read_csv fs p = Inr (map str_strip header, data_rows)"
  by (simp add: read_csv_def open_read_def)

lemma read_csv_empty:
  "fs p = Some f \<Longrightarrow> read_fault f = None \<Longrightarrow> rows f = []
     \<Longrightarrow> read_csv fs p = Inl StopIteration"
  by (simp add: read_csv_def open_read_def)

lemma read_csv_missing:
  "fs p = None \<Longrightarrow> read_csv fs p = Inl (Exception (missing_path_text p))"
  by (simp add: read_csv_def open_read_def)

lemma read_csv_fault:
  "fs p = Some f \<Longrightarrow> read_fault f = Some m \<Longrightarrow> read_csv fs p = Inl (Exception m)"
  by (cases "rows f") (simp_all add: read_csv_def open_read_def)

lemma write_csv_ok:
  "fs p = Some f \<Longrightarrow> read_fault f = None \<Longrightarrow> write_fault f = None
     \<Longrightarrow> write_csv fs p table = (None, fs(p \<mapsto> f\<lparr>rows := table\<rparr>))"
  by (cases f) (simp add: write_csv_def)

lemma write_csv_open_fails:
  "fs p = Some f \<Longrightarrow> write_fault f = Some (OpenFails m)
     \<Longrightarrow> write_csv fs p table = (Some (Exception m), fs)"
  by (simp add: write_csv_def)

lemma write_csv_write_fails:
  "fs p = Some f \<Longrightarrow> write_fault f = Some (WriteFails m left after)
     \<Longrightarrow> write_csv fs p table =
           (Some (Exception m),
            fs(p \<mapsto> \<lparr>rows = left, read_fault = None, write_fault = after\<rparr>))"
  by (simp add: write_csv_def)

lemma write_csv_raises:
  "fs p = Some f \<Longrightarrow> write_fault f = Some w
     \<Longrightarrow> \<exists>m fs'. write_csv fs p table = (Some (Exception m), fs')"
  by (cases w) (simp_all add: write_csv_def)

section \<open>The branches of normalize_malware_csv\<close>

text \<open>A legacy file is remapped and handed to the writer, whatever the writer then does.\<close>

lemma malware_legacy_write:
  assumes "fs p = Some f" and "read_fault f = None"
    and "rows f = header # data_rows"
    and "length header = 8
         \<or> (length header = 11 \<and> data_rows \<noteq> [] \<and> length (hd data_rows) = 8)"
    and "write_csv fs p (HEADER_11_COL
           # map malware_new_row (filter (\<lambda>r. length r = 8) data_rows)) = (raised, fs')"
  shows "normalize_malware_csv fs p =
           ((case raised of
               Some e \<Rightarrow> (False, ''ERROR'', error_message (exn_text e))
             | None \<Rightarrow>
                 (True, ''SUCCESS'',
                  ''File was successfully ''
                    @ (if length header = 11 then ''Fixed'' else ''Updated'') @ ''.'')),
            fs',
            OpenRead p
              # map (\<lambda>(i, r). Print (malware_warning i))
                  (filter (\<lambda>(i, r). length r \<noteq> 8)
                     (zip [2..<2 + length data_rows] data_rows))
              @ [OpenWrite p])"
proof -
  have rd: "read_csv fs p = Inr (map str_strip header, data_rows)"
    using assms(1,2,3) by (rule read_csv_ok)
  have frl: "(case data_rows of [] \<Rightarrow> 0 | r # _ \<Rightarrow> length r) = 8" if "length header = 11"
    using assms(4) that by (cases data_rows) simp_all
  show ?thesis
  proof (cases "length header = 8")
    case True
    then show ?thesis
      by (cases raised) (simp_all add: normalize_malware_csv_def rd assms(5) malware_loop_eq)
  next
    case False
    with assms(4) have h11: "length header = 11" by simp
    show ?thesis
      by (cases raised)
         (simp_all add: normalize_malware_csv_def rd assms(5) malware_loop_eq h11 frl)
  qed
qed

lemma malware_legacy:
  assumes "fs p = Some f" and "read_fault f = None" and "write_fault f = None"
    and "rows f = header # data_rows"
    and "length header = 8
         \<or> (length header = 11 \<and> data_rows \<noteq> [] \<and> length (hd data_rows) = 8)"
  shows "normalize_malware_csv fs p =
           ((True, ''SUCCESS'',
             ''File was successfully ''
               @ (if length header = 11 then ''Fixed'' else ''Updated'') @ ''.''),
            fs(p \<mapsto> f\<lparr>rows := HEADER_11_COL
                       # map malware_new_row (filter (\<lambda>r. length r = 8) data_rows)\<rparr>),
            OpenRead p
              # map (\<lambda>(i, r). Print (malware_warning i))
                  (filter (\<lambda>(i, r). length r \<noteq> 8)
                     (zip [2..<2 + length data_rows] data_rows))
              @ [OpenWrite p])"
  using malware_legacy_write
          [where fs = fs and p = p, OF assms(1,2,4,5)
             write_csv_ok [where fs = fs and p = p, OF assms(1,2,3)]]
  by simp

lemma malware_not_legacy:
  assumes "fs p = Some f" and "read_fault f = None" and "rows f = header # data_rows"
    and "\<not> (length header = 8
            \<or> (length header = 11 \<and> data_rows \<noteq> [] \<and> length (hd data_rows) = 8))"
  shows "\<exists>message. normalize_malware_csv fs p = ((False, ''SKIPPED'', message), fs, [OpenRead p])"
proof -
  have rd: "read_csv fs p = Inr (map str_strip header, data_rows)"
    using assms(1,2,3) by (rule read_csv_ok)
  show ?thesis
    using assms(4)
    by (cases data_rows) (auto simp add: normalize_malware_csv_def rd Let_def)
qed

lemma malware_empty:
  assumes "fs p = Some f" and "read_fault f = None" and "rows f = []"
  shows "normalize_malware_csv fs p = ((False, ''SKIPPED'', empty_message p), fs, [OpenRead p])"
  by (simp add: normalize_malware_csv_def read_csv_empty [where fs = fs and p = p, OF assms])

text \<open>What the rewrite leaves behind is never a legacy file.\<close>

lemma malware_canonical_table:
  assumes "fs p = Some f" and "read_fault f = None"
    and "rows f = HEADER_11_COL # map malware_new_row accepted"
  shows "\<exists>message. normalize_malware_csv fs p = ((False, ''SKIPPED'', message), fs, [OpenRead p])"
proof (rule malware_not_legacy [where fs = fs and p = p, OF assms])
  show "\<not> (length HEADER_11_COL = 8
            \<or> (length HEADER_11_COL = 11 \<and> map malware_new_row accepted \<noteq> []
                \<and> length (hd (map malware_new_row accepted)) = 8))"
    by (cases accepted) (simp_all add: length_HEADER_11_COL length_malware_new_row)
qed

lemma malware_missing:
  "fs p = None \<Longrightarrow> normalize_malware_csv fs p =
     ((False, ''ERROR'', error_message (missing_path_text p)), fs, [OpenRead p])"
  by (simp add: normalize_malware_csv_def read_csv_missing)

lemma malware_read_fault:
  "fs p = Some f \<Longrightarrow> read_fault f = Some m \<Longrightarrow>
     normalize_malware_csv fs p = ((False, ''ERROR'', error_message m), fs, [OpenRead p])"
  by (simp add: normalize_malware_csv_def read_csv_fault [where fs = fs and p = p])

lemma malware_open_fails:
  assumes "fs p = Some f" and "read_fault f = None" and "write_fault f = Some (OpenFails m)"
    and "rows f = header # data_rows"
    and "length header = 8
         \<or> (length header = 11 \<and> data_rows \<noteq> [] \<and> length (hd data_rows) = 8)"
  shows "fst (normalize_malware_csv fs p) = (False, ''ERROR'', error_message m)
         \<and> fst (snd (normalize_malware_csv fs p)) = fs"
  using malware_legacy_write
          [where fs = fs and p = p, OF assms(1,2,4,5)
             write_csv_open_fails [where fs = fs and p = p, OF assms(1,3)]]
  by simp

lemma malware_write_fails:
  assumes "fs p = Some f" and "read_fault f = None"
    and "write_fault f = Some (WriteFails m left after)"
    and "rows f = header # data_rows"
    and "length header = 8
         \<or> (length header = 11 \<and> data_rows \<noteq> [] \<and> length (hd data_rows) = 8)"
  shows "fst (normalize_malware_csv fs p) = (False, ''ERROR'', error_message m)
         \<and> fst (snd (normalize_malware_csv fs p))
             = fs(p \<mapsto> \<lparr>rows = left, read_fault = None, write_fault = after\<rparr>)"
  using malware_legacy_write
          [where fs = fs and p = p, OF assms(1,2,4,5)
             write_csv_write_fails [where fs = fs and p = p, OF assms(1,3)]]
  by simp

lemma malware_faulty_write_is_error:
  assumes "fs p = Some f" and "read_fault f = None" and "write_fault f = Some w"
    and "rows f = header # data_rows"
    and "length header = 8
         \<or> (length header = 11 \<and> data_rows \<noteq> [] \<and> length (hd data_rows) = 8)"
  shows "fst (snd (fst (normalize_malware_csv fs p))) = ''ERROR''"
proof -
  obtain m fs' where
    "write_csv fs p (HEADER_11_COL
       # map malware_new_row (filter (\<lambda>r. length r = 8) data_rows)) = (Some (Exception m), fs')"
    using write_csv_raises [where fs = fs and p = p, OF assms(1,3)] by blast
  from malware_legacy_write [where fs = fs and p = p, OF assms(1,2,4,5) this]
  show ?thesis by simp
qed

text \<open>A run that changes nothing is repeated by the next run.\<close>

lemma malware_rerun_unchanged:
  assumes "normalize_malware_csv fs p = ((False, status, message), fs, ev)"
    and "normalize_malware_csv fs p = (o1, fs1, ev1)"
    and "normalize_malware_csv fs1 p = (o2, fs2, ev2)"
  shows "fs2 = fs1 \<and> o2 = (False, status, message) \<and> ev2 = ev \<and> o1 = o2"
  using assms by auto

section \<open>The branches of normalize_attack_tool_csv\<close>

lemma attack_empty:
  assumes "fs p = Some f" and "read_fault f = None" and "rows f = []"
  shows "normalize_attack_tool_csv fs p = ((False, ''SKIPPED'', empty_message p), fs, [OpenRead p])"
  by (simp add: normalize_attack_tool_csv_def read_csv_empty [where fs = fs and p = p, OF assms])

lemma attack_missing:
  "fs p = None \<Longrightarrow> normalize_attack_tool_csv fs p =
     ((False, ''ERROR'', error_message (missing_path_text p)), fs, [OpenRead p])"
  by (simp add: normalize_attack_tool_csv_def read_csv_missing)

lemma attack_read_fault:
  "fs p = Some f \<Longrightarrow> read_fault f = Some m \<Longrightarrow>
     normalize_attack_tool_csv fs p = ((False, ''ERROR'', error_message m), fs, [OpenRead p])"
  by (simp add: normalize_attack_tool_csv_def read_csv_fault [where fs = fs and p = p])

lemma attack_write:
  assumes "fs p = Some f" and "read_fault f = None"
    and "rows f = header # data_rows" and "length header = 10"
    and "write_csv fs p (HEADER_11_COL
           # map attack_new_row (filter (\<lambda>r. length r = 10) data_rows)) = (raised, fs')"
  shows "normalize_attack_tool_csv fs p =
           ((case raised of
               Some e \<Rightarrow> (False, ''ERROR'', error_message (exn_text e))
             | None \<Rightarrow> (True, ''SUCCESS'', ''File was successfully fixed.'')),
            fs',
            OpenRead p
              # map (\<lambda>(i, r). Print (attack_warning i))
                  (filter (\<lambda>(i, r). length r \<noteq> 10)
                     (zip [2..<2 + length data_rows] data_rows))
              @ [OpenWrite p])"
proof -
  have rd: "read_csv fs p = Inr (map str_strip header, data_rows)"
    using assms(1,2,3) by (rule read_csv_ok)
  show ?thesis
    using assms(4)
    by (cases raised)
       (simp_all add: normalize_attack_tool_csv_def rd assms(5) attack_loop_eq)
qed

lemma attack_open_fails:
  assumes "fs p = Some f" and "read_fault f = None" and "write_fault f = Some (OpenFails m)"
    and "rows f = header # data_rows" and "length header = 10"
  shows "fst (normalize_attack_tool_csv fs p) = (False, ''ERROR'', error_message m)
         \<and> fst (snd (normalize_attack_tool_csv fs p)) = fs"
  using attack_write
          [where fs = fs and p = p, OF assms(1,2,4,5)
             write_csv_open_fails [where fs = fs and p = p, OF assms(1,3)]]
  by simp

lemma attack_write_fails:
  assumes "fs p = Some f" and "read_fault f = None"
    and "write_fault f = Some (WriteFails m left after)"
    and "rows f = header # data_rows" and "length header = 10"
  shows "fst (normalize_attack_tool_csv fs p) = (False, ''ERROR'', error_message m)
         \<and> fst (snd (normalize_attack_tool_csv fs p))
             = fs(p \<mapsto> \<lparr>rows = left, read_fault = None, write_fault = after\<rparr>)"
  using attack_write
          [where fs = fs and p = p, OF assms(1,2,4,5)
             write_csv_write_fails [where fs = fs and p = p, OF assms(1,3)]]
  by simp

section \<open>The shape of every result\<close>

lemma malware_well_formed: "well_formed_result fs (normalize_malware_csv fs p)"
  by (auto simp add: well_formed_result_def normalize_malware_csv_def malware_loop_eq Let_def
        split: sum.splits exn.splits list.splits prod.splits option.splits)

lemma attack_well_formed: "well_formed_result fs (normalize_attack_tool_csv fs p)"
  by (auto simp add: well_formed_result_def normalize_attack_tool_csv_def attack_loop_eq Let_def
        split: sum.splits exn.splits list.splits prod.splits option.splits)

section \<open>The verification pass, for every file\<close>

lemma fold_restval:
  "fold (\<lambda>key d. d(key \<mapsto> None)) ks d k = (if k \<in> set ks then Some None else d k)"
  by (induction ks arbitrary: d) auto

lemma fold_zip:
  "fold (\<lambda>(key, v) d. d(key \<mapsto> Some v)) kvs d k =
     (case map_of (rev kvs) k of None \<Rightarrow> d k | Some v \<Rightarrow> Some (Some v))"
proof (induction kvs arbitrary: d)
  case Nil
  show ?case by simp
next
  case (Cons kv kvs)
  obtain key v where kv: "kv = (key, v)" by (cases kv)
  have "fold (\<lambda>(key, v) d. d(key \<mapsto> Some v)) (kv # kvs) d k
          = fold (\<lambda>(key, v) d. d(key \<mapsto> Some v)) kvs (d(key \<mapsto> Some v)) k"
    by (simp add: kv)
  also have "\<dots> = (case map_of (rev kvs) k of
                       None \<Rightarrow> (d(key \<mapsto> Some v)) k | Some v' \<Rightarrow> Some (Some v'))"
    by (rule Cons.IH)
  also have "\<dots> = (case map_of (rev (kv # kvs)) k of
                       None \<Rightarrow> d k | Some v' \<Rightarrow> Some (Some v'))"
    by (simp add: kv map_add_def split: option.splits)
  finally show ?case .
qed

lemma dict_row_None_iff:
  "dict_row fieldnames row k = Some None \<longleftrightarrow> k \<in> set (drop (length row) fieldnames)"
  by (auto simp add: dict_row_def fold_restval fold_zip split: option.splits)

lemma verify_row_match_iff:
  "(\<exists>distance sha256. verify_row diff reference_tlsh max_distance fieldnames row
       = Match distance sha256)
   \<longleftrightarrow> row_is_match diff reference_tlsh max_distance fieldnames row"
  by (auto simp add: verify_row_def row_is_match_def dict_get_def Let_def str_strip_def
        startswith_def split: option.splits)

lemma verify_row_raises_iff:
  "(\<exists>m. verify_row diff reference_tlsh max_distance fieldnames row = Raises m)
   \<longleftrightarrow> ''TLSH Hash'' \<in> set (drop (length row) fieldnames)"
  by (auto simp add: verify_row_def dict_get_def Let_def dict_row_None_iff [symmetric]
        split: option.splits)

lemma verify_row_raises_text:
  "verify_row diff reference_tlsh max_distance fieldnames row = Raises m
     \<Longrightarrow> m = none_has_no_strip"
  by (auto simp add: verify_row_def dict_get_def Let_def split: option.splits if_splits)

lemma blank_row_no_match: "\<not> row_is_match diff reference_tlsh max_distance fieldnames []"
  by (simp add: row_is_match_def dict_row_def fold_restval split: option.splits)

lemma verify_loop_result:
  "fst (verify_loop diff file_path reference_tlsh max_distance fieldnames i data found out) =
     (if \<exists>row \<in> set data. row_lacks_cell fieldnames row
      then Inl (Exception none_has_no_strip)
      else Inr (found \<or> (\<exists>row \<in> set data.
                            row_is_match diff reference_tlsh max_distance fieldnames row)))"
proof (induction data arbitrary: i found out)
  case Nil
  show ?case by simp
next
  case (Cons row rest)
  show ?case
  proof (cases "row = []")
    case True
    then show ?thesis
      using Cons.IH [of i found out]
      by (simp add: row_lacks_cell_def blank_row_no_match)
  next
    case False
    show ?thesis
    proof (cases "verify_row diff reference_tlsh max_distance fieldnames row")
      case NoMatch
      then have "\<not> row_is_match diff reference_tlsh max_distance fieldnames row"
        using verify_row_match_iff [of diff reference_tlsh max_distance fieldnames row] by simp
      moreover have "\<not> row_lacks_cell fieldnames row"
        using NoMatch verify_row_raises_iff [of diff reference_tlsh max_distance fieldnames row]
        by (simp add: row_lacks_cell_def)
      ultimately show ?thesis
        using False NoMatch Cons.IH [of "i + 1" found out] by simp
    next
      case (Match distance sha256)
      then have "row_is_match diff reference_tlsh max_distance fieldnames row"
        using verify_row_match_iff [of diff reference_tlsh max_distance fieldnames row] by simp
      moreover have "\<not> row_lacks_cell fieldnames row"
        using Match verify_row_raises_iff [of diff reference_tlsh max_distance fieldnames row]
        by (simp add: row_lacks_cell_def)
      ultimately show ?thesis
        using False Match
          Cons.IH [of "i + 1" True "out @ [Print (match_message file_path i distance sha256)]"]
        by auto
    next
      case (Raises m)
      then have "row_lacks_cell fieldnames row"
        using False verify_row_raises_iff [of diff reference_tlsh max_distance fieldnames row]
        by (simp add: row_lacks_cell_def)
      then show ?thesis
        using False Raises verify_row_raises_text [OF Raises] by auto
    qed
  qed
qed

text \<open>
  What \<open>verify_and_match_hashes\<close> returns, for every file: \<open>(False, False)\<close> when the
  path does not exist, the file has no row, the header has no \<open>TLSH Hash\<close>, a row that
  is not blank lacks that cell, or reading raises; otherwise \<open>True\<close> and whether some row
  is a match.
\<close>

lemma verify_result:
  "fst (verify_and_match_hashes diff fs p reference_tlsh max_distance) =
     (case fs p of
        None \<Rightarrow> (False, False)
      | Some f \<Rightarrow>
          (case rows f of
             [] \<Rightarrow> (False, False)
           | fieldnames # data \<Rightarrow>
               if ''TLSH Hash'' \<notin> set fieldnames then (False, False)
               else if \<exists>row \<in> set data. row_lacks_cell fieldnames row then (False, False)
               else if read_fault f \<noteq> None then (False, False)
               else (True, \<exists>row \<in> set data.
                             row_is_match diff reference_tlsh max_distance fieldnames row)))"
proof (cases "fs p")
  case None
  then show ?thesis by (simp add: verify_and_match_hashes_def open_read_def)
next
  case (Some f)
  show ?thesis
  proof (cases "rows f")
    case Nil
    then show ?thesis
      using Some
      by (cases "read_fault f") (simp_all add: verify_and_match_hashes_def open_read_def)
  next
    case (Cons fieldnames data)
    obtain r out where loop:
      "verify_loop diff p reference_tlsh max_distance fieldnames 2 data False [] = (r, out)"
      by (cases "verify_loop diff p reference_tlsh max_distance fieldnames 2 data False []")
    have r: "r = (if \<exists>row \<in> set data. row_lacks_cell fieldnames row
                  then Inl (Exception none_has_no_strip)
                  else Inr (\<exists>row \<in> set data.
                              row_is_match diff reference_tlsh max_distance fieldnames row))"
      using verify_loop_result [of diff p reference_tlsh max_distance fieldnames 2 data False "[]"]
      by (simp add: loop)
    show ?thesis
      using Some Cons
      by (cases "read_fault f")
         (simp_all add: verify_and_match_hashes_def open_read_def loop r)
  qed
qed

section \<open>Bytes that are not UTF-8\<close>

lemma decode_ascii_prefix:
  "list_all is_ascii xs \<Longrightarrow>
     decode_utf8_ignore (xs @ zs) = map_option ((@) xs) (decode_utf8_ignore zs)"
proof (induction xs)
  case Nil
  show ?case by (simp add: option.map_ident)
next
  case (Cons x xs)
  then show ?case by (simp add: option.map_comp comp_def)
qed

lemma decode_invalid_start:
  "never_starts b \<Longrightarrow> decode_utf8_ignore (b # ys) = decode_utf8_ignore ys"
  by (auto simp add: never_starts_def is_ascii_def)

text \<open>A byte that starts no character, put after plain ASCII, changes nothing.\<close>

lemma read_bytes_ignores:
  assumes "list_all is_ascii xs" and "never_starts b"
  shows "read_bytes (xs @ b # ys) = read_bytes (xs @ ys)"
proof -
  have "decode_utf8_ignore (xs @ b # ys) = map_option ((@) xs) (decode_utf8_ignore (b # ys))"
    using assms(1) by (rule decode_ascii_prefix)
  also have "\<dots> = map_option ((@) xs) (decode_utf8_ignore ys)"
    using assms(2) by (simp only: decode_invalid_start)
  also have "\<dots> = decode_utf8_ignore (xs @ ys)"
    using assms(1) by (rule decode_ascii_prefix [symmetric])
  finally show ?thesis by (simp only: read_bytes_def)
qed

section \<open>A run with the library in place\<close>

text \<open>With \<open>tlsh\<close> available the command line of C2 does reach the file.\<close>

lemma test_with_tlsh_rewrites:
  "fst (script env_with_tlsh (args_with_test ''m.csv'')
          (one_file ''m.csv'' [legacy8_header, legacy8_row]))
     = one_file ''m.csv'' [HEADER_11_COL, malware_new_row legacy8_row]"
  by (simp add: script_def main_def args_with_test_def env_with_tlsh_def one_file_def
        normalize_malware_csv_def read_csv_def open_read_def write_csv_def
        legacy8_header_def legacy8_row_def verify_and_match_hashes_def
        HEADER_11_COL_def verify_row_def dict_row_def dict_get_def malware_new_row_def
        str_strip_def isspace_def startswith_def no_distance_def
        split: prod.splits)

section \<open>The claims\<close>

text \<open>
  The claims on what a normalizer does with a file of a given layout are stated for a
  file that is read without a fault and, where the file is rewritten, can be opened for
  writing; what happens otherwise is the subject of C9.
\<close>

text \<open>
  C1, as amended: a file whose header has width 11 is left as it is with the outcome
  \<open>(False, SKIPPED)\<close>, both when its first data row has width 11 and when it has no data
  row. With a first data row of width 11 the message is the one of a file that is already
  correct. Without data rows the width of the first row counts as 0, and the message is
  the one of an unrecognized layout, naming the widths 11 and 0.
\<close>

theorem canonical_skipped:
  assumes "fs p = Some f" and "read_fault f = None" and "rows f = header # data_rows"
    and "length header = 11"
  shows "(data_rows \<noteq> [] \<and> length (hd data_rows) = 11 \<longrightarrow>
            normalize_malware_csv fs p =
              ((False, ''SKIPPED'', ''File is already in the correct format.''),
               fs, [OpenRead p]))
       \<and> (data_rows = [] \<longrightarrow>
            normalize_malware_csv fs p =
              ((False, ''SKIPPED'',
                ''File has an unrecognized malware format (Header: 11, Row: 0).''),
               fs, [OpenRead p]))"
proof -
  have rd: "read_csv fs p = Inr (map str_strip header, data_rows)"
    using assms(1,2,3) by (rule read_csv_ok)
  show ?thesis
    using assms(4)
    by (cases data_rows)
       (simp_all add: normalize_malware_csv_def rd unrecognized_message_def str_nat.simps)
qed

theorem canonical_skipped_witness:
  "length HEADER_11_COL = 11
   \<and> length (hd [canonical_row]) = 11
   \<and> normalize_malware_csv (one_file ''c.csv'' [HEADER_11_COL, canonical_row]) ''c.csv''
       = ((False, ''SKIPPED'', ''File is already in the correct format.''),
          one_file ''c.csv'' [HEADER_11_COL, canonical_row], [OpenRead ''c.csv''])
   \<and> normalize_malware_csv (one_file ''d.csv'' [HEADER_11_COL]) ''d.csv''
       = ((False, ''SKIPPED'', ''File has an unrecognized malware format (Header: 11, Row: 0).''),
          one_file ''d.csv'' [HEADER_11_COL], [OpenRead ''d.csv''])"
  using canonical_skipped
          [of "one_file ''c.csv'' [HEADER_11_COL, canonical_row]" "''c.csv''"
              "\<lparr>rows = [HEADER_11_COL, canonical_row], read_fault = None, write_fault = None\<rparr>"
              HEADER_11_COL "[canonical_row]"]
        canonical_skipped
          [of "one_file ''d.csv'' [HEADER_11_COL]" "''d.csv''"
              "\<lparr>rows = [HEADER_11_COL], read_fault = None, write_fault = None\<rparr>"
              HEADER_11_COL "[]"]
  by (simp add: one_file_def length_HEADER_11_COL canonical_row_def)

text \<open>
  The claim as it was stated gives the message of an already correct file to a file of
  the canonical header alone; the source gives it the message of an unrecognized layout.
\<close>

theorem canonical_header_alone_counterexample:
  "length HEADER_11_COL = 11
   \<and> normalize_malware_csv (one_file ''h.csv'' [HEADER_11_COL]) ''h.csv''
       = ((False, ''SKIPPED'', ''File has an unrecognized malware format (Header: 11, Row: 0).''),
          one_file ''h.csv'' [HEADER_11_COL], [OpenRead ''h.csv''])
   \<and> snd (snd (fst (normalize_malware_csv (one_file ''h.csv'' [HEADER_11_COL]) ''h.csv'')))
       \<noteq> ''File is already in the correct format.''"
  by (simp add: normalize_malware_csv_def read_csv_def open_read_def one_file_def
        HEADER_11_COL_def unrecognized_message_def str_nat.simps)

text \<open>
  C2, as amended: when verification is requested and \<open>tlsh\<close> could not be imported, the
  run ends before any file is opened: the file system is unchanged and the log holds the
  two lines of the diagnostic and nothing else. \<open>main\<close> returns, so the exit status of
  the process is 0.
\<close>

theorem test_without_tlsh_aborts:
  assumes "args_test a" and "\<not> TLSH_AVAILABLE env"
  shows "script env a fs =
           (fs,
            [Print (newline @ ''[ERROR] The '' @ apostrophe @ ''--test'' @ apostrophe
                      @ '' feature requires the '' @ apostrophe @ ''tlsh'' @ apostrophe
                      @ '' library.''),
             Print ''Please install it by running: pip install tlsh''],
            0)"
  using assms by (simp add: script_def main_def tlsh_missing_report_def)

theorem test_without_tlsh_aborts_witness:
  "args_test (args_with_test ''t.csv'')
   \<and> \<not> TLSH_AVAILABLE env_without_tlsh
   \<and> script env_without_tlsh (args_with_test ''t.csv'')
         (one_file ''t.csv'' [attack10_header, attack10_row])
       = (one_file ''t.csv'' [attack10_header, attack10_row],
          [Print (newline @ ''[ERROR] The '' @ apostrophe @ ''--test'' @ apostrophe
                    @ '' feature requires the '' @ apostrophe @ ''tlsh'' @ apostrophe
                    @ '' library.''),
           Print ''Please install it by running: pip install tlsh''],
          0)"
  using test_without_tlsh_aborts
          [of "args_with_test ''t.csv''" env_without_tlsh
              "one_file ''t.csv'' [attack10_header, attack10_row]"]
  by (simp add: args_with_test_def env_without_tlsh_def)

text \<open>
  The claim as it was stated asks for an outcome other than zero; the exit status is 0.
\<close>

theorem test_without_tlsh_counterexample:
  "args_test (args_with_test ''m.csv'')
   \<and> \<not> TLSH_AVAILABLE env_without_tlsh
   \<and> script env_without_tlsh (args_with_test ''m.csv'')
         (one_file ''m.csv'' [legacy8_header, legacy8_row])
       = (one_file ''m.csv'' [legacy8_header, legacy8_row], tlsh_missing_report, 0)
   \<and> snd (snd (script env_without_tlsh (args_with_test ''m.csv'')
                 (one_file ''m.csv'' [legacy8_header, legacy8_row]))) = 0"
  by (simp add: script_def main_def args_with_test_def env_without_tlsh_def)

text \<open>
  C3: a legacy malware file (header of width 8, or header of width 11 with a first data
  row of width 8) is overwritten with the canonical header followed by one row for each
  data row of width 8, in order, each \<open>[a,b,c,d,e,f,g,h]\<close> remapped to
  \<open>[a,b,N/A,c,d,N/A,N/A,e,f,g,h]\<close>; every data row of another width is dropped with a
  warning that names its line; the outcome is \<open>(True, SUCCESS)\<close>, the message saying
  Fixed for a header of width 11 and Updated for one of width 8.
\<close>

theorem legacy_malware_rewrite:
  assumes "fs p = Some f" and "read_fault f = None" and "write_fault f = None"
    and "rows f = header # data_rows"
    and "length header = 8
         \<or> (length header = 11 \<and> data_rows \<noteq> [] \<and> length (hd data_rows) = 8)"
  shows "normalize_malware_csv fs p =
           ((True, ''SUCCESS'',
             ''File was successfully ''
               @ (if length header = 11 then ''Fixed'' else ''Updated'') @ ''.''),
            fs(p \<mapsto> f\<lparr>rows := HEADER_11_COL
                       # map malware_new_row (filter (\<lambda>r. length r = 8) data_rows)\<rparr>),
            OpenRead p
              # map (\<lambda>(i, r). Print (malware_warning i))
                  (filter (\<lambda>(i, r). length r \<noteq> 8)
                     (zip [2..<2 + length data_rows] data_rows))
              @ [OpenWrite p])
         \<and> (\<forall>a b c d e f g h.
               malware_new_row [a, b, c, d, e, f, g, h] =
                 [a, b, ''N/A'', c, d, ''N/A'', ''N/A'', e, f, g, h])"
  using malware_legacy [where fs = fs and p = p, OF assms] malware_new_row_8 by simp

theorem legacy_malware_rewrite_witness:
  "one_file ''m.csv'' [legacy8_header, legacy8_row, [''bad'', ''row'']] ''m.csv''
     = Some \<lparr>rows = [legacy8_header, legacy8_row, [''bad'', ''row'']],
              read_fault = None, write_fault = None\<rparr>
   \<and> length legacy8_header = 8
   \<and> normalize_malware_csv
         (one_file ''m.csv'' [legacy8_header, legacy8_row, [''bad'', ''row'']]) ''m.csv''
       = ((True, ''SUCCESS'', ''File was successfully Updated.''),
          one_file ''m.csv''
            [HEADER_11_COL,
             [''repoA'', ''fileB'', ''N/A'', ''v1.0'', ''T1HASH'', ''N/A'', ''N/A'', ''sha256x'',
              ''imphashY'', ''2024-01-01'', ''yes'']],
          [OpenRead ''m.csv'',
           Print ''      [!] Warning: Skipping malformed malware row 3'',
           OpenWrite ''m.csv''])"
  using legacy_malware_rewrite
          [of "one_file ''m.csv'' [legacy8_header, legacy8_row, [''bad'', ''row'']]" "''m.csv''"
              "\<lparr>rows = [legacy8_header, legacy8_row, [''bad'', ''row'']],
                read_fault = None, write_fault = None\<rparr>"
              legacy8_header "[legacy8_row, [''bad'', ''row'']]"]
  by (simp add: one_file_def legacy8_header_def legacy8_row_def malware_new_row_def
        malware_warning_def str_nat.simps upt_rec)

text \<open>
  C4: in a file with a header of width 10, every data row of width 10 becomes
  \<open>[r0, r1, fileType', r3, r4, r5, N/A, r6, r7, r8, r9]\<close>, where \<open>fileType'\<close> is field 2
  with every comma replaced by a semicolon and every other character kept; no other field
  is altered; every data row of another width is dropped with a warning that names its
  line.
\<close>

theorem attack_tool_rewrite:
  assumes "fs p = Some f" and "read_fault f = None" and "write_fault f = None"
    and "rows f = header # data_rows"
    and "length header = 10"
  shows "normalize_attack_tool_csv fs p =
           ((True, ''SUCCESS'', ''File was successfully fixed.''),
            fs(p \<mapsto> f\<lparr>rows := HEADER_11_COL
                       # map attack_new_row (filter (\<lambda>r. length r = 10) data_rows)\<rparr>),
            OpenRead p
              # map (\<lambda>(i, r). Print (attack_warning i))
                  (filter (\<lambda>(i, r). length r \<noteq> 10)
                     (zip [2..<2 + length data_rows] data_rows))
              @ [OpenWrite p])
         \<and> (\<forall>r0 r1 r2 r3 r4 r5 r6 r7 r8 r9.
               attack_new_row [r0, r1, r2, r3, r4, r5, r6, r7, r8, r9] =
                 [r0, r1, map (\<lambda>c. if c = CHR '','' then CHR '';'' else c) r2, r3, r4, r5,
                  ''N/A'', r6, r7, r8, r9])"
proof -
  have rd: "read_csv fs p = Inr (map str_strip header, data_rows)"
    using assms(1,2,4) by (rule read_csv_ok)
  have wr: "\<And>table. write_csv fs p table = (None, fs(p \<mapsto> f\<lparr>rows := table\<rparr>))"
    using assms(1,2,3) by (rule write_csv_ok)
  show ?thesis
    using assms(5)
    by (simp add: normalize_attack_tool_csv_def rd wr attack_loop_eq attack_new_row_10)
qed

theorem attack_tool_rewrite_witness:
  "one_file ''t.csv'' [attack10_header, [''short''], attack10_row] ''t.csv''
     = Some \<lparr>rows = [attack10_header, [''short''], attack10_row],
              read_fault = None, write_fault = None\<rparr>
   \<and> length attack10_header = 10
   \<and> normalize_attack_tool_csv
         (one_file ''t.csv'' [attack10_header, [''short''], attack10_row]) ''t.csv''
       = ((True, ''SUCCESS'', ''File was successfully fixed.''),
          one_file ''t.csv''
            [HEADER_11_COL,
             [''repoA'', ''toolB'', ''exe;dll'', ''v1.0'', ''T1HASH'', ''3'', ''N/A'', ''sha256x'',
              ''imphashY'', ''2024-01-01'', ''yes'']],
          [OpenRead ''t.csv'',
           Print ''      [!] Warning: Skipping malformed attack tool row 2'',
           OpenWrite ''t.csv''])"
  using attack_tool_rewrite
          [of "one_file ''t.csv'' [attack10_header, [''short''], attack10_row]" "''t.csv''"
              "\<lparr>rows = [attack10_header, [''short''], attack10_row],
                read_fault = None, write_fault = None\<rparr>"
              attack10_header "[[''short''], attack10_row]"]
  by (simp add: one_file_def attack10_header_def attack10_row_def attack_new_row_def
        str_replace_def attack_warning_def str_nat.simps upt_rec)

text \<open>
  C5, as amended: malware normalization is idempotent on every file on which the first
  run does not end in \<open>ERROR\<close>. The second run then returns the status \<open>SKIPPED\<close> and
  opens the file for reading only, so the file system, and with it the content of the
  file byte for byte, is what the first run left.
\<close>

theorem malware_idempotent:
  assumes "normalize_malware_csv fs p = (o1, fs1, ev1)"
    and "normalize_malware_csv fs1 p = (o2, fs2, ev2)"
  shows "fst (snd o1) \<noteq> ''ERROR'' \<longrightarrow>
           fst (snd o2) = ''SKIPPED'' \<and> fs2 = fs1 \<and> ev2 = [OpenRead p]"
proof (cases "fs p")
  case None
  from malware_missing [where fs = fs and p = p, OF None]
    malware_rerun_unchanged [OF _ assms]
  show ?thesis by fastforce
next
  case (Some f)
  show ?thesis
  proof (cases "read_fault f")
    case (Some m)
    from malware_read_fault [where fs = fs and p = p, OF \<open>fs p = Some f\<close> Some]
      malware_rerun_unchanged [OF _ assms]
    show ?thesis by fastforce
  next
    case None
    note readable = \<open>fs p = Some f\<close> None
    show ?thesis
    proof (cases "rows f")
      case Nil
      from malware_empty [where fs = fs and p = p, OF readable Nil]
        malware_rerun_unchanged [OF _ assms]
      show ?thesis by fastforce
    next
      case (Cons header data_rows)
      show ?thesis
      proof (cases "length header = 8
            \<or> (length header = 11 \<and> data_rows \<noteq> [] \<and> length (hd data_rows) = 8)")
        case False
        from malware_not_legacy [where fs = fs and p = p, OF readable Cons False]
        obtain message where
          "normalize_malware_csv fs p = ((False, ''SKIPPED'', message), fs, [OpenRead p])"
          by blast
        from malware_rerun_unchanged [OF this assms] show ?thesis by simp
      next
        case True
        show ?thesis
        proof (cases "write_fault f")
          case (Some w)
          from malware_faulty_write_is_error
                 [where fs = fs and p = p, OF readable Some Cons True] assms(1)
          show ?thesis by simp
        next
          case None
          let ?f' = "f\<lparr>rows := HEADER_11_COL
                         # map malware_new_row (filter (\<lambda>r. length r = 8) data_rows)\<rparr>"
          from malware_legacy [where fs = fs and p = p, OF readable None Cons True] assms(1)
          have fs1: "fs1 = fs(p \<mapsto> ?f')" by simp
          have "fs1 p = Some ?f'" by (simp add: fs1)
          moreover have "read_fault ?f' = None" using readable(2) by simp
          moreover have "rows ?f' = HEADER_11_COL
                         # map malware_new_row (filter (\<lambda>r. length r = 8) data_rows)" by simp
          ultimately obtain message where
            "normalize_malware_csv fs1 p = ((False, ''SKIPPED'', message), fs1, [OpenRead p])"
            using malware_canonical_table [where fs = fs1 and p = p] by blast
          with assms(2) show ?thesis by auto
        qed
      qed
    qed
  qed
qed

theorem malware_idempotent_witness:
  "normalize_malware_csv (one_file ''m.csv'' [legacy8_header, legacy8_row]) ''m.csv''
     = ((True, ''SUCCESS'', ''File was successfully Updated.''),
        one_file ''m.csv'' [HEADER_11_COL, malware_new_row legacy8_row],
        [OpenRead ''m.csv'', OpenWrite ''m.csv''])
   \<and> ''SUCCESS'' \<noteq> ''ERROR''
   \<and> normalize_malware_csv (one_file ''m.csv'' [HEADER_11_COL, malware_new_row legacy8_row]) ''m.csv''
     = ((False, ''SKIPPED'', ''File is already in the correct format.''),
        one_file ''m.csv'' [HEADER_11_COL, malware_new_row legacy8_row],
        [OpenRead ''m.csv''])
   \<and> fst (snd (False, ''SKIPPED'', ''File is already in the correct format.'')) = ''SKIPPED''"
proof -
  have run1: "normalize_malware_csv (one_file ''m.csv'' [legacy8_header, legacy8_row]) ''m.csv''
     = ((True, ''SUCCESS'', ''File was successfully Updated.''),
        one_file ''m.csv'' [HEADER_11_COL, malware_new_row legacy8_row],
        [OpenRead ''m.csv'', OpenWrite ''m.csv''])"
    by (simp add: normalize_malware_csv_def read_csv_def open_read_def write_csv_def
          one_file_def legacy8_header_def legacy8_row_def)
  have run2: "normalize_malware_csv (one_file ''m.csv'' [HEADER_11_COL, malware_new_row legacy8_row]) ''m.csv''
     = ((False, ''SKIPPED'', ''File is already in the correct format.''),
        one_file ''m.csv'' [HEADER_11_COL, malware_new_row legacy8_row],
        [OpenRead ''m.csv''])"
    by (simp add: normalize_malware_csv_def read_csv_def open_read_def
          one_file_def HEADER_11_COL_def malware_new_row_def)
  from malware_idempotent [OF run1 run2] run1 run2 show ?thesis by simp
qed

text \<open>
  The claim as it was stated speaks of every file. A legacy file that cannot be opened
  for writing gives \<open>ERROR\<close> on the first run and, left as it was, \<open>ERROR\<close> again on the
  second. A legacy file whose first rewrite fails when the disk is full is left cut
  short, here after the eighth cell of its first row; the second run takes what is left
  for a legacy file, rewrites it and returns \<open>SUCCESS\<close>.
\<close>

theorem rerun_after_error_counterexample:
  "normalize_malware_csv
     (one_file_faulty ''ro.csv'' [legacy8_header, legacy8_row] None (Some permission_denied))
     ''ro.csv''
   = ((False, ''ERROR'',
       ''An unexpected error occurred: [Errno 13] Permission denied: ''
         @ apostrophe @ ''ro.csv'' @ apostrophe),
      one_file_faulty ''ro.csv'' [legacy8_header, legacy8_row] None (Some permission_denied),
      [OpenRead ''ro.csv'', OpenWrite ''ro.csv''])
   \<and> ''ERROR'' \<noteq> ''SKIPPED''
   \<and> normalize_malware_csv
       (one_file_faulty ''full.csv'' [legacy8_header, legacy8_row] None (Some disk_full_once))
       ''full.csv''
   = ((False, ''ERROR'', ''An unexpected error occurred: [Errno 28] No space left on device''),
      one_file ''full.csv'' cut_table,
      [OpenRead ''full.csv'', OpenWrite ''full.csv''])
   \<and> normalize_malware_csv (one_file ''full.csv'' cut_table) ''full.csv''
   = ((True, ''SUCCESS'', ''File was successfully Fixed.''),
      one_file ''full.csv''
        [HEADER_11_COL,
         [''repoA'', ''fileB'', ''N/A'', ''N/A'', ''v1.0'', ''N/A'', ''N/A'', ''T1HASH'', ''N/A'',
          ''N/A'', ''sha'']],
      [OpenRead ''full.csv'', OpenWrite ''full.csv''])
   \<and> ''SUCCESS'' \<noteq> ''SKIPPED''"
  by (simp add: normalize_malware_csv_def read_csv_def open_read_def write_csv_def
        one_file_def one_file_faulty_def permission_denied_def disk_full_once_def
        cut_table_def legacy8_header_def legacy8_row_def HEADER_11_COL_def
        malware_new_row_def error_message_def)

text \<open>
  C6: the source at the input where it departs from the claim. The second row is a
  match and is reported as one; the third row is too short to have a fingerprint cell,
  and instead of being passed over it ends the scan: the file is reported as
  \<open>(False, False)\<close>, although a row matched.
\<close>

theorem short_row_after_match_fails_file:
  "verify_and_match_hashes identical_distance
     (one_file ''v.csv'' [HEADER_11_COL, matching_row, [''repoB'', ''fileC'']])
     ''v.csv'' MALWARE_TEST_HASH 50
   = ((False, False),
      [Print (''    -> Deep Test: '' @ apostrophe @ ''v.csv'' @ apostrophe),
       OpenRead ''v.csv'',
       Print ''       [MATCH FOUND] File: v.csv, Row: 2, Distance: 0, SHA256: sha256x'',
       Print (''       [ERROR] Test failed: Could not read or parse file: ''
                @ apostrophe @ ''NoneType'' @ apostrophe @ '' object has no attribute ''
                @ apostrophe @ ''strip'' @ apostrophe)])"
  by (simp add: verify_and_match_hashes_def one_file_def open_read_def HEADER_11_COL_def
        matching_row_def MALWARE_TEST_HASH_def verify_row_def dict_row_def dict_get_def
        str_strip_def isspace_def startswith_def identical_distance_def match_message_def
        basename_def str_nat.simps str_int_def verify_error_def none_has_no_strip_def)

text \<open>
  C7: the source at the input where it departs from the claim. The file is opened and
  read without a fault and its header has the column \<open>TLSH Hash\<close>, and yet the result
  is \<open>(False, False)\<close>, because a data row is too short to have a fingerprint cell.
\<close>

theorem short_row_reported_unreadable:
  "open_read (one_file ''s.csv'' [HEADER_11_COL, [''repoB'', ''fileC'']]) ''s.csv''
     = Inr ([HEADER_11_COL, [''repoB'', ''fileC'']], None)
   \<and> ''TLSH Hash'' \<in> set HEADER_11_COL
   \<and> fst (verify_and_match_hashes no_distance
            (one_file ''s.csv'' [HEADER_11_COL, [''repoB'', ''fileC'']])
            ''s.csv'' MALWARE_TEST_HASH 50)
       = (False, False)"
  by (simp add: verify_and_match_hashes_def one_file_def open_read_def HEADER_11_COL_def
        verify_row_def dict_row_def dict_get_def)

text \<open>
  C8: a file whose layout the active mode does not recognize is left as it is, with no
  write, and the outcome is \<open>(False, SKIPPED)\<close>. In malware mode that is every layout
  that is neither canonical nor legacy, and the message names the width of the header
  and of the first data row (0 when there is none); in attack-tool mode it is every
  header whose width is not 10.
\<close>

theorem unrecognized_untouched:
  assumes "fs p = Some f" and "read_fault f = None" and "rows f = header # data_rows"
  shows "(\<not> (length header = 11 \<and> first_row_len = 11)
            \<and> \<not> (length header = 8 \<or> (length header = 11 \<and> first_row_len = 8))
            \<and> first_row_len = (case data_rows of [] \<Rightarrow> 0 | r # _ \<Rightarrow> length r)
          \<longrightarrow> normalize_malware_csv fs p =
                ((False, ''SKIPPED'',
                  ''File has an unrecognized malware format (Header: ''
                    @ str_nat (length header) @ '', Row: '' @ str_nat first_row_len @ '').''),
                 fs, [OpenRead p]))
       \<and> (length header \<noteq> 10
          \<longrightarrow> normalize_attack_tool_csv fs p =
                ((False, ''SKIPPED'', ''File is not a 10-column attack tool CSV.''),
                 fs, [OpenRead p]))"
proof -
  have rd: "read_csv fs p = Inr (map str_strip header, data_rows)"
    using assms by (rule read_csv_ok)
  show ?thesis
    by (auto simp add: normalize_malware_csv_def normalize_attack_tool_csv_def rd
          unrecognized_message_def Let_def)
qed

theorem unrecognized_untouched_witness:
  "one_file ''u.csv'' width7_table ''u.csv''
     = Some \<lparr>rows = width7_table, read_fault = None, write_fault = None\<rparr>
   \<and> normalize_malware_csv (one_file ''u.csv'' width7_table) ''u.csv''
       = ((False, ''SKIPPED'', ''File has an unrecognized malware format (Header: 7, Row: 7).''),
          one_file ''u.csv'' width7_table, [OpenRead ''u.csv''])
   \<and> normalize_attack_tool_csv (one_file ''u.csv'' width7_table) ''u.csv''
       = ((False, ''SKIPPED'', ''File is not a 10-column attack tool CSV.''),
          one_file ''u.csv'' width7_table, [OpenRead ''u.csv''])"
  using unrecognized_untouched
          [of "one_file ''u.csv'' width7_table" "''u.csv''"
              "\<lparr>rows = width7_table, read_fault = None, write_fault = None\<rparr>"
              "[''c1'', ''c2'', ''c3'', ''c4'', ''c5'', ''c6'', ''c7'']"
              "[[''v1'', ''v2'', ''v3'', ''v4'', ''v5'', ''v6'', ''v7'']]" 7]
  by (simp add: one_file_def width7_table_def str_nat.simps)

text \<open>
  C9, as amended: neither normalizer lets an exception out. Every call returns an
  outcome of the three kinds. A file without a header row gives \<open>(False, SKIPPED)\<close>. A
  path that names nothing, a fault while the file is read or parsed, a file that cannot
  be opened for writing, and a write that fails after the file was opened give
  \<open>(False, ERROR)\<close> with the text of the exception; in the last case the file is left
  cut short, in the others the file system is as it was. Bytes that are not UTF-8 are
  no failure: the file is decoded with \<open>errors='ignore'\<close>, which leaves them out, and
  the file is processed as the text that remains.
\<close>

theorem failures_become_outcomes:
  "well_formed_result fs (normalize_malware_csv fs p)
   \<and> well_formed_result fs (normalize_attack_tool_csv fs p)
   \<and> (fs p = Some f \<and> read_fault f = None \<and> rows f = [] \<longrightarrow>
        normalize_malware_csv fs p =
          ((False, ''SKIPPED'', ''File '' @ apostrophe @ p @ apostrophe @ '' is empty.''),
           fs, [OpenRead p])
        \<and> normalize_attack_tool_csv fs p =
          ((False, ''SKIPPED'', ''File '' @ apostrophe @ p @ apostrophe @ '' is empty.''),
           fs, [OpenRead p]))
   \<and> (fs p = None \<longrightarrow>
        normalize_malware_csv fs p =
          ((False, ''ERROR'', ''An unexpected error occurred: '' @ missing_path_text p),
           fs, [OpenRead p])
        \<and> normalize_attack_tool_csv fs p =
          ((False, ''ERROR'', ''An unexpected error occurred: '' @ missing_path_text p),
           fs, [OpenRead p]))
   \<and> (fs p = Some f \<and> read_fault f = Some m \<longrightarrow>
        normalize_malware_csv fs p =
          ((False, ''ERROR'', ''An unexpected error occurred: '' @ m), fs, [OpenRead p])
        \<and> normalize_attack_tool_csv fs p =
          ((False, ''ERROR'', ''An unexpected error occurred: '' @ m), fs, [OpenRead p]))
   \<and> (fs p = Some f \<and> read_fault f = None \<and> rows f = header # data_rows
        \<and> (length header = 8
            \<or> (length header = 11 \<and> data_rows \<noteq> [] \<and> length (hd data_rows) = 8)) \<longrightarrow>
        (write_fault f = Some (OpenFails m) \<longrightarrow>
           fst (normalize_malware_csv fs p)
             = (False, ''ERROR'', ''An unexpected error occurred: '' @ m)
           \<and> fst (snd (normalize_malware_csv fs p)) = fs)
        \<and> (write_fault f = Some (WriteFails m left after) \<longrightarrow>
           fst (normalize_malware_csv fs p)
             = (False, ''ERROR'', ''An unexpected error occurred: '' @ m)
           \<and> fst (snd (normalize_malware_csv fs p))
               = fs(p \<mapsto> \<lparr>rows = left, read_fault = None, write_fault = after\<rparr>)))
   \<and> (fs p = Some f \<and> read_fault f = None \<and> rows f = header # data_rows
        \<and> length header = 10 \<longrightarrow>
        (write_fault f = Some (OpenFails m) \<longrightarrow>
           fst (normalize_attack_tool_csv fs p)
             = (False, ''ERROR'', ''An unexpected error occurred: '' @ m)
           \<and> fst (snd (normalize_attack_tool_csv fs p)) = fs)
        \<and> (write_fault f = Some (WriteFails m left after) \<longrightarrow>
           fst (normalize_attack_tool_csv fs p)
             = (False, ''ERROR'', ''An unexpected error occurred: '' @ m)
           \<and> fst (snd (normalize_attack_tool_csv fs p))
               = fs(p \<mapsto> \<lparr>rows = left, read_fault = None, write_fault = after\<rparr>)))
   \<and> (list_all is_ascii xs \<and> never_starts b \<longrightarrow>
        read_bytes (xs @ b # ys) = read_bytes (xs @ ys))"
proof (intro conjI impI)
  show "well_formed_result fs (normalize_malware_csv fs p)"
    by (rule malware_well_formed)
  show "well_formed_result fs (normalize_attack_tool_csv fs p)"
    by (rule attack_well_formed)
next
  assume a: "fs p = Some f \<and> read_fault f = None \<and> rows f = []"
  show "normalize_malware_csv fs p =
          ((False, ''SKIPPED'', ''File '' @ apostrophe @ p @ apostrophe @ '' is empty.''),
           fs, [OpenRead p])"
    using a malware_empty [where fs = fs and p = p and f = f] by (simp add: empty_message_def)
  show "normalize_attack_tool_csv fs p =
          ((False, ''SKIPPED'', ''File '' @ apostrophe @ p @ apostrophe @ '' is empty.''),
           fs, [OpenRead p])"
    using a attack_empty [where fs = fs and p = p and f = f] by (simp add: empty_message_def)
next
  assume a: "fs p = None"
  show "normalize_malware_csv fs p =
          ((False, ''ERROR'', ''An unexpected error occurred: '' @ missing_path_text p),
           fs, [OpenRead p])"
    using malware_missing [where fs = fs and p = p, OF a] by (simp add: error_message_def)
  show "normalize_attack_tool_csv fs p =
          ((False, ''ERROR'', ''An unexpected error occurred: '' @ missing_path_text p),
           fs, [OpenRead p])"
    using attack_missing [where fs = fs and p = p, OF a] by (simp add: error_message_def)
next
  assume a: "fs p = Some f \<and> read_fault f = Some m"
  show "normalize_malware_csv fs p =
          ((False, ''ERROR'', ''An unexpected error occurred: '' @ m), fs, [OpenRead p])"
    using a malware_read_fault [where fs = fs and p = p and f = f and m = m]
    by (simp add: error_message_def)
  show "normalize_attack_tool_csv fs p =
          ((False, ''ERROR'', ''An unexpected error occurred: '' @ m), fs, [OpenRead p])"
    using a attack_read_fault [where fs = fs and p = p and f = f and m = m]
    by (simp add: error_message_def)
next
  assume a: "fs p = Some f \<and> read_fault f = None \<and> rows f = header # data_rows
        \<and> (length header = 8
            \<or> (length header = 11 \<and> data_rows \<noteq> [] \<and> length (hd data_rows) = 8))"
  {
    assume w: "write_fault f = Some (OpenFails m)"
    have r: "fst (normalize_malware_csv fs p) = (False, ''ERROR'', error_message m)
           \<and> fst (snd (normalize_malware_csv fs p)) = fs"
      using a w malware_open_fails [where fs = fs and p = p and f = f and m = m
                                      and header = header and data_rows = data_rows]
      by blast
    show "fst (normalize_malware_csv fs p)
            = (False, ''ERROR'', ''An unexpected error occurred: '' @ m)"
      using r by (simp add: error_message_def)
    show "fst (snd (normalize_malware_csv fs p)) = fs"
      using r by simp
  }
  {
    assume w: "write_fault f = Some (WriteFails m left after)"
    have r: "fst (normalize_malware_csv fs p) = (False, ''ERROR'', error_message m)
           \<and> fst (snd (normalize_malware_csv fs p))
               = fs(p \<mapsto> \<lparr>rows = left, read_fault = None, write_fault = after\<rparr>)"
      using a w malware_write_fails [where fs = fs and p = p and f = f and m = m
                                       and left = left and after = after
                                       and header = header and data_rows = data_rows]
      by blast
    show "fst (normalize_malware_csv fs p)
            = (False, ''ERROR'', ''An unexpected error occurred: '' @ m)"
      using r by (simp add: error_message_def)
    show "fst (snd (normalize_malware_csv fs p))
            = fs(p \<mapsto> \<lparr>rows = left, read_fault = None, write_fault = after\<rparr>)"
      using r by simp
  }
next
  assume a: "fs p = Some f \<and> read_fault f = None \<and> rows f = header # data_rows
        \<and> length header = 10"
  {
    assume w: "write_fault f = Some (OpenFails m)"
    have r: "fst (normalize_attack_tool_csv fs p) = (False, ''ERROR'', error_message m)
           \<and> fst (snd (normalize_attack_tool_csv fs p)) = fs"
      using a w attack_open_fails [where fs = fs and p = p and f = f and m = m
                                     and header = header and data_rows = data_rows]
      by blast
    show "fst (normalize_attack_tool_csv fs p)
            = (False, ''ERROR'', ''An unexpected error occurred: '' @ m)"
      using r by (simp add: error_message_def)
    show "fst (snd (normalize_attack_tool_csv fs p)) = fs"
      using r by simp
  }
  {
    assume w: "write_fault f = Some (WriteFails m left after)"
    have r: "fst (normalize_attack_tool_csv fs p) = (False, ''ERROR'', error_message m)
           \<and> fst (snd (normalize_attack_tool_csv fs p))
               = fs(p \<mapsto> \<lparr>rows = left, read_fault = None, write_fault = after\<rparr>)"
      using a w attack_write_fails [where fs = fs and p = p and f = f and m = m
                                      and left = left and after = after
                                      and header = header and data_rows = data_rows]
      by blast
    show "fst (normalize_attack_tool_csv fs p)
            = (False, ''ERROR'', ''An unexpected error occurred: '' @ m)"
      using r by (simp add: error_message_def)
    show "fst (snd (normalize_attack_tool_csv fs p))
            = fs(p \<mapsto> \<lparr>rows = left, read_fault = None, write_fault = after\<rparr>)"
      using r by simp
  }
next
  assume "list_all is_ascii xs \<and> never_starts b"
  then show "read_bytes (xs @ b # ys) = read_bytes (xs @ ys)"
    using read_bytes_ignores by blast
qed

theorem failures_become_outcomes_witness:
  "normalize_malware_csv (one_file ''z.csv'' []) ''z.csv''
     = ((False, ''SKIPPED'', ''File '' @ apostrophe @ ''z.csv'' @ apostrophe @ '' is empty.''),
        one_file ''z.csv'' [], [OpenRead ''z.csv''])
   \<and> normalize_attack_tool_csv (one_file ''z.csv'' []) ''z.csv''
     = ((False, ''SKIPPED'', ''File '' @ apostrophe @ ''z.csv'' @ apostrophe @ '' is empty.''),
        one_file ''z.csv'' [], [OpenRead ''z.csv''])
   \<and> one_file ''z.csv'' [] ''gone.csv'' = None
   \<and> normalize_malware_csv (one_file ''z.csv'' []) ''gone.csv''
     = ((False, ''ERROR'',
         ''An unexpected error occurred: [Errno 2] No such file or directory: ''
           @ apostrophe @ ''gone.csv'' @ apostrophe),
        one_file ''z.csv'' [], [OpenRead ''gone.csv''])
   \<and> normalize_attack_tool_csv (one_file ''z.csv'' []) (''it'' @ apostrophe @ ''s.csv'')
     = ((False, ''ERROR'',
         ''An unexpected error occurred: [Errno 2] No such file or directory: ''
           @ [CHR 0x22] @ ''it'' @ apostrophe @ ''s.csv'' @ [CHR 0x22]),
        one_file ''z.csv'' [], [OpenRead (''it'' @ apostrophe @ ''s.csv'')])
   \<and> normalize_attack_tool_csv
        (one_file_faulty ''big.csv'' [attack10_header]
           (Some ''field larger than field limit (131072)'') None) ''big.csv''
     = ((False, ''ERROR'',
         ''An unexpected error occurred: field larger than field limit (131072)''),
        one_file_faulty ''big.csv'' [attack10_header]
           (Some ''field larger than field limit (131072)'') None,
        [OpenRead ''big.csv''])
   \<and> fst (normalize_malware_csv
             (one_file_faulty ''ro.csv'' [legacy8_header, legacy8_row] None
                (Some permission_denied)) ''ro.csv'')
     = (False, ''ERROR'',
        ''An unexpected error occurred: [Errno 13] Permission denied: ''
          @ apostrophe @ ''ro.csv'' @ apostrophe)
   \<and> fst (snd (normalize_attack_tool_csv
             (one_file_faulty ''ro.csv'' [attack10_header, attack10_row] None
                (Some permission_denied)) ''ro.csv''))
     = one_file_faulty ''ro.csv'' [attack10_header, attack10_row] None (Some permission_denied)
   \<and> fst (normalize_attack_tool_csv
             (one_file_faulty ''full.csv'' [attack10_header, attack10_row] None
                (Some disk_full_once)) ''full.csv'')
     = (False, ''ERROR'', ''An unexpected error occurred: [Errno 28] No space left on device'')
   \<and> fst (snd (normalize_malware_csv
             (one_file_faulty ''full.csv'' [legacy8_header, legacy8_row] None
                (Some disk_full_once)) ''full.csv''))
     = one_file ''full.csv'' cut_table
   \<and> read_bytes legacy8_bytes
     = read_bytes
         (''Repo Name,File Name,Release Version,TLSH Hash,SHA256 Hash,Imphash,Date Added,Intel''
          @ [CHR 0x0D, CHR 0x0A]
          @ ''repoA,fileB,v1.0,T1HASH,sha256x,imphashY,2024-01-01,yes''
          @ [CHR 0x0D, CHR 0x0A])"
proof -
  note z = failures_become_outcomes
      [of "one_file ''z.csv'' []" "''z.csv''"
          "\<lparr>rows = [], read_fault = None, write_fault = None\<rparr>"]
  note g = failures_become_outcomes [of "one_file ''z.csv'' []" "''gone.csv''"]
  note q = failures_become_outcomes
      [of "one_file ''z.csv'' []" "''it'' @ apostrophe @ ''s.csv''"]
  note b = failures_become_outcomes
      [of "one_file_faulty ''big.csv'' [attack10_header]
             (Some ''field larger than field limit (131072)'') None" "''big.csv''"
          "\<lparr>rows = [attack10_header],
            read_fault = Some ''field larger than field limit (131072)'', write_fault = None\<rparr>"
          "''field larger than field limit (131072)''"]
  note rm = failures_become_outcomes
      [of "one_file_faulty ''ro.csv'' [legacy8_header, legacy8_row] None
             (Some permission_denied)" "''ro.csv''"
          "\<lparr>rows = [legacy8_header, legacy8_row], read_fault = None,
            write_fault = Some permission_denied\<rparr>"
          "''[Errno 13] Permission denied: '' @ apostrophe @ ''ro.csv'' @ apostrophe"
          legacy8_header "[legacy8_row]"]
  note ra = failures_become_outcomes
      [of "one_file_faulty ''ro.csv'' [attack10_header, attack10_row] None
             (Some permission_denied)" "''ro.csv''"
          "\<lparr>rows = [attack10_header, attack10_row], read_fault = None,
            write_fault = Some permission_denied\<rparr>"
          "''[Errno 13] Permission denied: '' @ apostrophe @ ''ro.csv'' @ apostrophe"
          attack10_header "[attack10_row]"]
  note fa = failures_become_outcomes
      [of "one_file_faulty ''full.csv'' [attack10_header, attack10_row] None
             (Some disk_full_once)" "''full.csv''"
          "\<lparr>rows = [attack10_header, attack10_row], read_fault = None,
            write_fault = Some disk_full_once\<rparr>"
          "''[Errno 28] No space left on device''"
          attack10_header "[attack10_row]" cut_table None]
  note fm = failures_become_outcomes
      [of "one_file_faulty ''full.csv'' [legacy8_header, legacy8_row] None
             (Some disk_full_once)" "''full.csv''"
          "\<lparr>rows = [legacy8_header, legacy8_row], read_fault = None,
            write_fault = Some disk_full_once\<rparr>"
          "''[Errno 28] No space left on device''"
          legacy8_header "[legacy8_row]" cut_table None]
  note d = failures_become_outcomes
      [where xs = "''Repo Name,File Name,Release Version,TLSH Hash,SHA256 Hash,Imphash,Date Added,Intel''
                   @ [CHR 0x0D, CHR 0x0A] @ ''repoA,fi''"
         and b = "CHR 0xFF"
         and ys = "''leB,v1.0,T1HASH,sha256x,imphashY,2024-01-01,yes'' @ [CHR 0x0D, CHR 0x0A]"]
  show ?thesis
    using z g q b rm ra fa fm d
    by (simp add: one_file_def one_file_faulty_def legacy8_header_def attack10_header_def
          permission_denied_def disk_full_once_def missing_path_text_def py_repr_def
          repr_char_def Let_def apostrophe_def legacy8_bytes_def is_ascii_def
          never_starts_def)
qed

text \<open>
  The claim as it was stated lists a failure to decode among the failures that give
  \<open>(False, ERROR)\<close>. The legacy file with the byte 0xFF in a cell is read as if the byte
  were not there, and is rewritten with \<open>(True, SUCCESS)\<close>.
\<close>

theorem undecodable_byte_counterexample:
  "CHR 0xFF \<in> set legacy8_bytes
   \<and> holds_bytes \<lparr>rows = [legacy8_header, legacy8_row], read_fault = None, write_fault = None\<rparr>
        legacy8_bytes
   \<and> one_file ''x.csv'' [legacy8_header, legacy8_row] ''x.csv''
       = Some \<lparr>rows = [legacy8_header, legacy8_row], read_fault = None, write_fault = None\<rparr>
   \<and> normalize_malware_csv (one_file ''x.csv'' [legacy8_header, legacy8_row]) ''x.csv''
       = ((True, ''SUCCESS'', ''File was successfully Updated.''),
          one_file ''x.csv''
            [HEADER_11_COL,
             [''repoA'', ''fileB'', ''N/A'', ''v1.0'', ''T1HASH'', ''N/A'', ''N/A'', ''sha256x'',
              ''imphashY'', ''2024-01-01'', ''yes'']],
          [OpenRead ''x.csv'', OpenWrite ''x.csv''])"
  by (simp add: holds_bytes_def read_bytes_def legacy8_bytes_def is_ascii_def
        is_continuation_def never_starts_def csv_reader_plain_def text_lines_def
        legacy8_header_def legacy8_row_def normalize_malware_csv_def read_csv_def
        open_read_def write_csv_def one_file_def malware_new_row_def)

text \<open>
  C10: in attack-tool mode a file with a header of width 10 is always rewritten, with
  the outcome \<open>(True, SUCCESS)\<close>, also when it has no data row or no data row of width
  10; the file then holds the canonical header alone.
\<close>

theorem attack_tool_always_rewrites:
  assumes "fs p = Some f" and "read_fault f = None" and "write_fault f = None"
    and "rows f = header # data_rows"
    and "length header = 10"
  shows "fst (normalize_attack_tool_csv fs p) = (True, ''SUCCESS'', ''File was successfully fixed.'')
         \<and> OpenWrite p \<in> set (snd (snd (normalize_attack_tool_csv fs p)))
         \<and> ((\<forall>r \<in> set data_rows. length r \<noteq> 10) \<longrightarrow>
              fst (snd (normalize_attack_tool_csv fs p)) = fs(p \<mapsto> f\<lparr>rows := [HEADER_11_COL]\<rparr>))"
proof -
  have rd: "read_csv fs p = Inr (map str_strip header, data_rows)"
    using assms(1,2,4) by (rule read_csv_ok)
  have wr: "\<And>table. write_csv fs p table = (None, fs(p \<mapsto> f\<lparr>rows := table\<rparr>))"
    using assms(1,2,3) by (rule write_csv_ok)
  have none: "filter (\<lambda>r. length r = 10) data_rows = []"
    if "\<forall>r \<in> set data_rows. length r \<noteq> 10"
    using that by (simp add: filter_empty_conv)
  show ?thesis
    using assms(5)
    by (simp add: normalize_attack_tool_csv_def rd wr attack_loop_eq none)
qed

theorem attack_tool_always_rewrites_witness:
  "one_file ''e.csv'' [attack10_header] ''e.csv''
     = Some \<lparr>rows = [attack10_header], read_fault = None, write_fault = None\<rparr>
   \<and> length attack10_header = 10
   \<and> fst (normalize_attack_tool_csv (one_file ''e.csv'' [attack10_header]) ''e.csv'')
       = (True, ''SUCCESS'', ''File was successfully fixed.'')
   \<and> fst (snd (normalize_attack_tool_csv (one_file ''e.csv'' [attack10_header]) ''e.csv''))
       = one_file ''e.csv'' [HEADER_11_COL]
   \<and> length [''only'', ''two''] \<noteq> 10
   \<and> fst (snd (normalize_attack_tool_csv
                  (one_file ''w.csv'' [attack10_header, [''only'', ''two'']]) ''w.csv''))
       = one_file ''w.csv'' [HEADER_11_COL]"
  using attack_tool_always_rewrites
          [of "one_file ''e.csv'' [attack10_header]" "''e.csv''"
              "\<lparr>rows = [attack10_header], read_fault = None, write_fault = None\<rparr>"
              attack10_header "[]"]
        attack_tool_always_rewrites
          [of "one_file ''w.csv'' [attack10_header, [''only'', ''two'']]" "''w.csv''"
              "\<lparr>rows = [attack10_header, [''only'', ''two'']],
                read_fault = None, write_fault = None\<rparr>"
              attack10_header "[[''only'', ''two'']]"]
  by (simp add: one_file_def attack10_header_def)

end
